theory Spec2Isabelle
  imports Complex_Main "HOL-Library.Sublist"
begin

section \<open>Comparison showcase: the mobile accordion (assets/comparison-showcase.js)\<close>

text \<open>
  A block of the accordion is a DOM element. Only the parts the script reads or writes
  are kept: the two data attributes, the first toggle control inside the block and the
  content panel inside the block (each may be missing from the markup). An attribute
  that is not set reads as \<open>None\<close> (\<open>getAttribute\<close> returns null).
\<close>

record toggle =
  aria_expanded :: "string option"
  role :: "string option"
  tabindex :: "string option"

record block =
  data_mobile_state :: "string option"
  data_mobile_side :: "string option"
  block_toggle :: "toggle option"
  content_aria_hidden :: "string option option"

text \<open>
  A dispatched \<open>CustomEvent\<close>: its name and its detail, the block (a DOM node, here
  its position in \<open>mobileBlocks\<close>) and the block's side tag.
\<close>

record custom_event =
  event_name :: string
  detail_block :: nat
  detail_side :: "string option"

text \<open>
  The custom element with the window width it reads. \<open>dispatched\<close> is the log of the
  events given to \<open>dispatchEvent\<close>, oldest first.
\<close>

record comparison =
  innerWidth :: int
  breakpoint :: int
  mobileBlocks :: "block list"
  dispatched :: "custom_event list"

definition isMobileView :: "comparison \<Rightarrow> bool" where
  "isMobileView c = (innerWidth c < breakpoint c)"

definition updateAriaAttributes :: "comparison \<Rightarrow> comparison" where
  "updateAriaAttributes c =
     c\<lparr>mobileBlocks :=
         map (\<lambda>b. b\<lparr>block_toggle :=
                       map_option (\<lambda>t. t\<lparr>aria_expanded :=
                                            Some (if data_mobile_state b = Some ''expanded''
                                                  then ''true'' else ''false''),
                                          role := Some ''button'',
                                          tabindex := Some ''0''\<rparr>) (block_toggle b),
                     content_aria_hidden :=
                       map_option (\<lambda>_. Some (if data_mobile_state b = Some ''expanded''
                                               then ''false'' else ''true''))
                                  (content_aria_hidden b)\<rparr>)
             (mobileBlocks c)\<rparr>"

definition dispatchCustomEvent :: "nat \<Rightarrow> string \<Rightarrow> comparison \<Rightarrow> comparison" where
  "dispatchCustomEvent i eventName c =
     c\<lparr>dispatched := dispatched c @
          [\<lparr>event_name = eventName, detail_block = i,
            detail_side = data_mobile_side (mobileBlocks c ! i)\<rparr>]\<rparr>"

definition setState :: "nat \<Rightarrow> string \<Rightarrow> comparison \<Rightarrow> comparison" where
  "setState i v c =
     c\<lparr>mobileBlocks := (mobileBlocks c)[i := (mobileBlocks c ! i)\<lparr>data_mobile_state := Some v\<rparr>]\<rparr>"

definition expandBlock :: "nat \<Rightarrow> comparison \<Rightarrow> comparison" where
  "expandBlock i c =
     dispatchCustomEvent i ''comparison:expanded''
       (updateAriaAttributes (setState i ''expanded'' c))"

definition collapseBlock :: "nat \<Rightarrow> comparison \<Rightarrow> comparison" where
  "collapseBlock i c =
     dispatchCustomEvent i ''comparison:collapsed''
       (updateAriaAttributes (setState i ''collapsed'' c))"

text \<open>
  \<open>handleToggle\<close>. The argument is what \<open>button.closest('.comparison-showcase__mobile-block')\<close>
  gives for the clicked control: \<open>None\<close> for null, \<open>Some i\<close> for the block at position
  \<open>i\<close> of \<open>mobileBlocks\<close>. The \<open>forEach\<close> visits the blocks in order; each visit
  compares the visited node with the clicked block by identity.
\<close>

definition toggleStep :: "nat \<Rightarrow> nat \<Rightarrow> comparison \<Rightarrow> comparison" where
  "toggleStep i j c = (if j = i then expandBlock i c else collapseBlock j c)"

definition handleToggle :: "nat option \<Rightarrow> comparison \<Rightarrow> comparison" where
  "handleToggle target c =
     (if \<not> isMobileView c then c
      else case target of
             None \<Rightarrow> c
           | Some i \<Rightarrow> fold (toggleStep i) [0..<length (mobileBlocks c)] c)"

definition states :: "comparison \<Rightarrow> string option list" where
  "states c = map data_mobile_state (mobileBlocks c)"

definition sides :: "comparison \<Rightarrow> string option list" where
  "sides c = map data_mobile_side (mobileBlocks c)"

definition expandedBlocks :: "comparison \<Rightarrow> nat list" where
  "expandedBlocks c =
     filter (\<lambda>j. data_mobile_state (mobileBlocks c ! j) = Some ''expanded'')
       [0..<length (mobileBlocks c)]"

text \<open>The event \<open>handleToggle\<close> dispatches for the block at position \<open>j\<close>.\<close>

definition toggleEvent :: "nat \<Rightarrow> comparison \<Rightarrow> nat \<Rightarrow> custom_event" where
  "toggleEvent i c j =
     \<lparr>event_name = (if j = i then ''comparison:expanded'' else ''comparison:collapsed''),
      detail_block = j,
      detail_side = data_mobile_side (mobileBlocks c ! j)\<rparr>"

text \<open>The states \<open>handleToggle\<close> leaves when the block at position \<open>i\<close> of \<open>n\<close> blocks is clicked.\<close>

definition toggled :: "nat \<Rightarrow> nat \<Rightarrow> string option list" where
  "toggled i n = map (\<lambda>j. Some (if j = i then ''expanded'' else ''collapsed'')) [0..<n]"

text \<open>A concrete accordion on a narrow viewport: the left block expanded, the right one collapsed.\<close>

definition two_blocks :: comparison where
  "two_blocks =
     \<lparr>innerWidth = 400, breakpoint = 900,
      mobileBlocks =
        [\<lparr>data_mobile_state = Some ''expanded'', data_mobile_side = Some ''left'',
          block_toggle = None, content_aria_hidden = None\<rparr>,
         \<lparr>data_mobile_state = Some ''collapsed'', data_mobile_side = Some ''right'',
          block_toggle = None, content_aria_hidden = None\<rparr>],
      dispatched = []\<rparr>"

section \<open>Brand showcase: the alphabet filter (class BrandShowcase)\<close>

text \<open>
  A brand card and an alphabet button, with the parts of the DOM element the script
  reads or writes. \<open>card_letter\<close> is \<open>card.dataset.letter\<close> (\<open>None\<close> when the
  attribute is missing), the two flags are the membership of the classes
  \<open>filtering-hide\<close> and \<open>filtering-show\<close> in \<open>classList\<close>, \<open>card_display\<close> is
  \<open>style.display\<close>. Every alphabet button carries a \<open>data-letter\<close> attribute.
\<close>

record card =
  card_letter :: "string option"
  filtering_hide :: bool
  filtering_show :: bool
  card_display :: "string option"

record button =
  btn_letter :: string
  disabled :: bool
  active :: bool
  aria_pressed :: "string option"
  disabled_class :: bool

text \<open>
  The callbacks the script hands to \<open>setTimeout\<close>: the outer callback of
  \<open>animateFilter\<close> with the \<open>cardsToShow\<close> array its closure captured (the cards, as
  positions in \<open>brandCards\<close>), the inner callback that ends the animation, and the
  callback of \<open>announceToScreenReader\<close> with the node it removes.
\<close>

datatype callback = ShowCards "nat list" | AnimationComplete | RemoveAnnouncement nat

text \<open>
  The widget together with the part of the page it acts on: the options, the elements
  found by the constructor, the two fields \<open>currentFilter\<close> and \<open>isAnimating\<close>, the
  address bar (\<open>location_hash\<close> is \<open>window.location.hash\<close>, \<open>location_path\<close> is
  \<open>pathname + search\<close>), the URLs given to \<open>history.pushState\<close> so far (oldest
  first), the live-region nodes appended to the body (numbered in creation order), and
  the pending timers, each with the delay in milliseconds it was scheduled with.
  \<open>emptyState\<close> is \<open>None\<close> when the page has no empty-state panel and else the
  panel's \<open>style.display\<close>; \<open>brandGrid\<close> is the \<open>style.display\<close> of the grid,
  which a page with an empty-state panel has. The resize handler only sets the scroll
  behaviour of the navigation bar and is left out.
\<close>

record showcase =
  enableAnimation :: bool
  animationDuration :: rat
  alphabetButtons :: "button list"
  brandCards :: "card list"
  emptyState :: "string option option"
  brandGrid :: "string option"
  currentFilter :: string
  isAnimating :: bool
  location_hash :: string
  location_path :: string
  pushed :: "string list"
  announcements :: "(nat \<times> string) list"
  created :: nat
  timers :: "(rat \<times> callback) list"

definition setTimeout :: "callback \<Rightarrow> rat \<Rightarrow> showcase \<Rightarrow> showcase" where
  "setTimeout cb delay s = s\<lparr>timers := timers s @ [(delay, cb)]\<rparr>"

text \<open>
  \<open>history.pushState(null, '', url)\<close> for the two forms of URL the script uses: a URL
  that starts with \<open>#\<close> replaces the fragment, and \<open>pathname + search\<close> has no
  fragment.
\<close>

definition pushState :: "string \<Rightarrow> showcase \<Rightarrow> showcase" where
  "pushState url s =
     s\<lparr>pushed := pushed s @ [url],
       location_hash := (if prefix ''#'' url then url else [])\<rparr>"

text \<open>\<open>forEach\<close> over an array of elements of a list, given by their positions.\<close>

definition forEachAt :: "nat list \<Rightarrow> ('a \<Rightarrow> 'a) \<Rightarrow> 'a list \<Rightarrow> 'a list" where
  "forEachAt js f xs = fold (\<lambda>j ys. ys[j := f (ys ! j)]) js xs"

definition cardMatchesFilter :: "card \<Rightarrow> string \<Rightarrow> bool" where
  "cardMatchesFilter c letter =
     (if letter = ''all'' then True else card_letter c = Some letter)"

definition cardsToHide :: "string \<Rightarrow> showcase \<Rightarrow> nat list" where
  "cardsToHide letter s =
     filter (\<lambda>j. \<not> cardMatchesFilter (brandCards s ! j) letter) [0..<length (brandCards s)]"

definition cardsToShow :: "string \<Rightarrow> showcase \<Rightarrow> nat list" where
  "cardsToShow letter s =
     filter (\<lambda>j. cardMatchesFilter (brandCards s ! j) letter) [0..<length (brandCards s)]"

definition updateEmptyState :: "bool \<Rightarrow> showcase \<Rightarrow> showcase" where
  "updateEmptyState isEmpty s =
     (case emptyState s of
        None \<Rightarrow> s
      | Some _ \<Rightarrow>
          if isEmpty then s\<lparr>emptyState := Some (Some ''block''), brandGrid := Some ''none''\<rparr>
          else s\<lparr>emptyState := Some (Some ''none''), brandGrid := Some ''grid''\<rparr>)"

definition cleanupFilterClasses :: "showcase \<Rightarrow> showcase" where
  "cleanupFilterClasses s =
     s\<lparr>brandCards := map (\<lambda>c. c\<lparr>filtering_hide := False, filtering_show := False\<rparr>)
                         (brandCards s)\<rparr>"

definition animateFilter :: "string \<Rightarrow> showcase \<Rightarrow> showcase" where
  "animateFilter letter s =
     (let s1 = s\<lparr>isAnimating := True\<rparr>;
          toHide = cardsToHide letter s1;
          toShow = cardsToShow letter s1;
          s2 = s1\<lparr>brandCards :=
                    forEachAt toHide (\<lambda>c. c\<lparr>filtering_hide := True, filtering_show := False\<rparr>)
                      (brandCards s1)\<rparr>
      in setTimeout (ShowCards toShow) (animationDuration s2 / 2) s2)"

text \<open>The two callbacks of \<open>animateFilter\<close>, run when their timers fire.\<close>

definition showCardsCallback :: "nat list \<Rightarrow> showcase \<Rightarrow> showcase" where
  "showCardsCallback toShow s =
     (let s1 = s\<lparr>brandCards :=
                   forEachAt toShow (\<lambda>c. c\<lparr>filtering_hide := False, filtering_show := True\<rparr>)
                     (brandCards s)\<rparr>;
          s2 = updateEmptyState (length toShow = 0) s1
      in setTimeout AnimationComplete (animationDuration s2) s2)"

definition animationCompleteCallback :: "showcase \<Rightarrow> showcase" where
  "animationCompleteCallback s = cleanupFilterClasses (s\<lparr>isAnimating := False\<rparr>)"

definition instantFilter :: "string \<Rightarrow> showcase \<Rightarrow> showcase" where
  "instantFilter letter s =
     (let s1 = s\<lparr>brandCards :=
                   map (\<lambda>c. c\<lparr>card_display :=
                                  Some (if cardMatchesFilter c letter then ''block'' else ''none'')\<rparr>)
                       (brandCards s)\<rparr>;
          visibleCards = cardsToShow letter s1
      in updateEmptyState (length visibleCards = 0) s1)"

definition updateActiveButton :: "string \<Rightarrow> showcase \<Rightarrow> showcase" where
  "updateActiveButton letter s =
     s\<lparr>alphabetButtons :=
         map (\<lambda>b. let isActive = (btn_letter b = letter)
                  in b\<lparr>active := isActive,
                       aria_pressed := Some (if isActive then ''true'' else ''false'')\<rparr>)
             (alphabetButtons s)\<rparr>"

definition updateCounts :: "showcase \<Rightarrow> showcase" where
  "updateCounts s =
     s\<lparr>alphabetButtons :=
         map (\<lambda>b. let letter = btn_letter b in
                  if letter = ''all'' then b
                  else let hasCards = list_ex (\<lambda>c. card_letter c = Some letter) (brandCards s)
                       in b\<lparr>disabled := \<not> hasCards, disabled_class := \<not> hasCards\<rparr>)
             (alphabetButtons s)\<rparr>"

definition updateURL :: "string \<Rightarrow> showcase \<Rightarrow> showcase" where
  "updateURL letter s =
     (if letter = [] \<or> letter = ''all'' then
        (if location_hash s \<noteq> [] then pushState (location_path s) s else s)
      else pushState (''#letter-'' @ letter) s)"

definition getLetterFromURL :: "showcase \<Rightarrow> string" where
  "getLetterFromURL s =
     (let hash = location_hash s
      in if prefix ''#letter-'' hash then drop 8 hash else ''all'')"

text \<open>\<open>String.prototype.toUpperCase\<close> on the ASCII letters.\<close>

definition toUpperCase :: "string \<Rightarrow> string" where
  "toUpperCase str =
     map (\<lambda>c. let n = (of_char c :: nat) in if 97 \<le> n \<and> n \<le> 122 then char_of (n - 32) else c) str"

definition announceToScreenReader :: "string \<Rightarrow> showcase \<Rightarrow> showcase" where
  "announceToScreenReader message s =
     (let announcement = created s;
          s1 = s\<lparr>created := Suc (created s),
                 announcements := announcements s @ [(announcement, message)]\<rparr>
      in setTimeout (RemoveAnnouncement announcement) 1000 s1)"

definition removeAnnouncementCallback :: "nat \<Rightarrow> showcase \<Rightarrow> showcase" where
  "removeAnnouncementCallback announcement s =
     s\<lparr>announcements := filter (\<lambda>a. fst a \<noteq> announcement) (announcements s)\<rparr>"

definition announceFilterChange :: "string \<Rightarrow> showcase \<Rightarrow> showcase" where
  "announceFilterChange letter s =
     announceToScreenReader
       (if letter = ''all'' then ''Showing all brands''
        else ''Showing brands starting with '' @ toUpperCase letter) s"

definition filterByLetter :: "string \<Rightarrow> bool \<Rightarrow> showcase \<Rightarrow> showcase" where
  "filterByLetter letter updateHistory s =
     (if isAnimating s \<and> enableAnimation s then s
      else
        let s1 = s\<lparr>currentFilter := letter\<rparr>;
            s2 = updateActiveButton letter s1;
            s3 = (if enableAnimation s2 then animateFilter letter s2
                  else instantFilter letter s2);
            s4 = (if updateHistory then updateURL letter s3 else s3)
        in announceFilterChange letter s4)"

text \<open>
  The event handlers. A click or key event on an alphabet button is given by the
  position of the button (\<open>event.currentTarget\<close>) in \<open>alphabetButtons\<close>; the handlers
  are bound to these buttons only.
\<close>

definition handleAlphabetClick :: "nat \<Rightarrow> showcase \<Rightarrow> showcase" where
  "handleAlphabetClick i s =
     (if isAnimating s then s
      else
        let button = alphabetButtons s ! i;
            letter = btn_letter button
        in if disabled button \<or> letter = currentFilter s then s
           else updateURL letter (filterByLetter letter True s))"

definition handleAlphabetKeydown :: "string \<Rightarrow> nat \<Rightarrow> showcase \<Rightarrow> showcase" where
  "handleAlphabetKeydown key i s =
     (if key = ''Enter'' \<or> key = '' '' then handleAlphabetClick i s else s)"

definition handleShowAllClick :: "showcase \<Rightarrow> showcase" where
  "handleShowAllClick s = updateURL ''all'' (filterByLetter ''all'' True s)"

definition handlePopState :: "showcase \<Rightarrow> showcase" where
  "handlePopState s = filterByLetter (getLetterFromURL s) False s"

definition handleInitialFilter :: "showcase \<Rightarrow> showcase" where
  "handleInitialFilter s =
     (let letter = getLetterFromURL s
      in if letter \<noteq> [] \<and> letter \<noteq> ''all'' then filterByLetter letter False s else s)"

definition init :: "showcase \<Rightarrow> showcase" where
  "init s = updateCounts (handleInitialFilter (updateURL (currentFilter s) s))"

definition setFilter :: "string \<Rightarrow> showcase \<Rightarrow> showcase" where
  "setFilter letter s = filterByLetter letter True s"

definition getCurrentFilter :: "showcase \<Rightarrow> string" where
  "getCurrentFilter s = currentFilter s"

definition getVisibleCardsCount :: "showcase \<Rightarrow> nat" where
  "getVisibleCardsCount s = length (cardsToShow (currentFilter s) s)"

text \<open>
  The widget as the constructor leaves it just before it calls \<open>init\<close>: the filter is
  \<open>all\<close>, no animation is running, and the widget has scheduled and announced nothing.
\<close>

definition constructed :: "showcase \<Rightarrow> bool" where
  "constructed s =
     (currentFilter s = ''all'' \<and> \<not> isAnimating s \<and> timers s = [] \<and> announcements s = [])"

text \<open>
  What can happen to a widget on a page. A timer fires by being taken out of the pending
  list and running its callback; the timers are not ordered among themselves here, so
  every order the browser can choose is covered. A navigation (back or forward) puts a
  fragment into the address bar and then delivers \<open>popstate\<close>.
\<close>

datatype event =
    Click nat
  | Keydown string nat
  | ShowAllClick
  | Navigate string
  | SetFilter string
  | Fire nat

definition runCallback :: "callback \<Rightarrow> showcase \<Rightarrow> showcase" where
  "runCallback cb s =
     (case cb of
        ShowCards toShow \<Rightarrow> showCardsCallback toShow s
      | AnimationComplete \<Rightarrow> animationCompleteCallback s
      | RemoveAnnouncement a \<Rightarrow> removeAnnouncementCallback a s)"

definition fire :: "nat \<Rightarrow> showcase \<Rightarrow> showcase" where
  "fire k s =
     (if k < length (timers s)
      then runCallback (snd (timers s ! k)) (s\<lparr>timers := take k (timers s) @ drop (Suc k) (timers s)\<rparr>)
      else s)"

definition step :: "event \<Rightarrow> showcase \<Rightarrow> showcase" where
  "step e s =
     (case e of
        Click i \<Rightarrow> (if i < length (alphabetButtons s) then handleAlphabetClick i s else s)
      | Keydown key i \<Rightarrow> (if i < length (alphabetButtons s) then handleAlphabetKeydown key i s else s)
      | ShowAllClick \<Rightarrow> handleShowAllClick s
      | Navigate hash \<Rightarrow> handlePopState (s\<lparr>location_hash := hash\<rparr>)
      | SetFilter letter \<Rightarrow> setFilter letter s
      | Fire k \<Rightarrow> fire k s)"

text \<open>The widget after a sequence of events, starting from the constructor's call of \<open>init\<close>.\<close>

definition run :: "event list \<Rightarrow> showcase \<Rightarrow> showcase" where
  "run es s = fold step es (init s)"

definition isAnimationCallback :: "callback \<Rightarrow> bool" where
  "isAnimationCallback cb = (case cb of RemoveAnnouncement _ \<Rightarrow> False | _ \<Rightarrow> True)"

text \<open>The animations in progress: the pending timers that belong to \<open>animateFilter\<close>.\<close>

definition pendingAnimations :: "showcase \<Rightarrow> nat" where
  "pendingAnimations s = length (filter (\<lambda>t. isAnimationCallback (snd t)) (timers s))"

text \<open>
  While an animation runs exactly one of its timers is pending, and none is otherwise.
\<close>

definition animInv :: "showcase \<Rightarrow> bool" where
  "animInv s = (pendingAnimations s = (if isAnimating s then 1 else 0))"

text \<open>
  A concrete page: buttons for \<open>all\<close>, \<open>A\<close>, \<open>B\<close> and \<open>Z\<close>, one brand under \<open>A\<close>, two
  under \<open>B\<close> and none under \<open>Z\<close>, the widget as its constructor leaves it before
  \<open>init\<close>, with the default options.
\<close>

definition brand_page :: showcase where
  "brand_page =
     \<lparr>enableAnimation = True, animationDuration = 300,
      alphabetButtons =
        [\<lparr>btn_letter = ''all'', disabled = False, active = True,
          aria_pressed = Some ''true'', disabled_class = False\<rparr>,
         \<lparr>btn_letter = ''A'', disabled = False, active = False,
          aria_pressed = Some ''false'', disabled_class = False\<rparr>,
         \<lparr>btn_letter = ''B'', disabled = False, active = False,
          aria_pressed = Some ''false'', disabled_class = False\<rparr>,
         \<lparr>btn_letter = ''Z'', disabled = False, active = False,
          aria_pressed = Some ''false'', disabled_class = False\<rparr>],
      brandCards =
        [\<lparr>card_letter = Some ''A'', filtering_hide = False, filtering_show = False,
          card_display = None\<rparr>,
         \<lparr>card_letter = Some ''B'', filtering_hide = False, filtering_show = False,
          card_display = None\<rparr>,
         \<lparr>card_letter = Some ''B'', filtering_hide = False, filtering_show = False,
          card_display = None\<rparr>],
      emptyState = Some None, brandGrid = None,
      currentFilter = ''all'', isAnimating = False,
      location_hash = [], location_path = ''/brands'',
      pushed = [], announcements = [], created = 0, timers = []\<rparr>"

text \<open>
  What a click reads of the buttons (letter and \<open>disabled\<close>), and the letters of the
  cards: neither is changed by anything the widget does after \<open>updateCounts\<close>.
\<close>

definition buttonView :: "showcase \<Rightarrow> (string \<times> bool) list" where
  "buttonView s = map (\<lambda>b. (btn_letter b, disabled b)) (alphabetButtons s)"

definition cardLetters :: "showcase \<Rightarrow> string option list" where
  "cardLetters s = map card_letter (brandCards s)"

text \<open>The three settings of the transient classes of a card.\<close>

definition hideCard :: "card \<Rightarrow> card" where
  "hideCard c = c\<lparr>filtering_hide := True, filtering_show := False\<rparr>"

definition showCard :: "card \<Rightarrow> card" where
  "showCard c = c\<lparr>filtering_hide := False, filtering_show := True\<rparr>"

definition idleCard :: "card \<Rightarrow> card" where
  "idleCard c = c\<lparr>filtering_hide := False, filtering_show := False\<rparr>"

section \<open>The numbers of the scripts\<close>

text \<open>
  The calculator computes with JavaScript numbers, that is IEEE 754 binary64 values.
  A finite value is kept as the rational it denotes; \<open>NaN\<close> and the two infinities are
  values of their own. The negative zero is identified with zero: the script never
  divides by a computed value and takes no sign of a zero.

  \<open>fl\<close> rounds a rational to the nearest binary64 value, ties to the even significand:
  53 significant bits for a normal number, multiples of \<open>2 ^ -1074\<close> below the normal
  range. \<open>toDouble\<close> adds the overflow to an infinity: the largest finite exponent
  is 1023.
\<close>

datatype jsnum = NaN | PosInf | NegInf | Num rat

definition pow2 :: "int \<Rightarrow> rat" where
  "pow2 e = (if 0 \<le> e then 2 ^ nat e else 1 / 2 ^ nat (- e))"

text \<open>The number of binary digits of a positive integer.\<close>

function bitlen :: "int \<Rightarrow> int" where
  "bitlen n = (if n \<le> 0 then 0 else 1 + bitlen (n div 2))"
  by pat_completeness auto
termination
  by (relation "measure nat") auto

declare bitlen.simps [simp del]

text \<open>The exponent of the leading bit of a positive rational, \<open>\<lfloor>log\<^sub>2 x\<rfloor>\<close>.\<close>

definition ilog2 :: "rat \<Rightarrow> int" where
  "ilog2 x =
     (let (p, q) = quotient_of x;
          d = bitlen p - bitlen q
      in if pow2 d \<le> x then d else d - 1)"

definition roundHalfEven :: "rat \<Rightarrow> int" where
  "roundHalfEven m =
     (let n = \<lfloor>m\<rfloor>; r = m - of_int n
      in if r < 1 / 2 then n else if 1 / 2 < r then n + 1 else if even n then n else n + 1)"

definition fl :: "rat \<Rightarrow> rat" where
  "fl x =
     (if x = 0 then 0
      else let e = max (ilog2 \<bar>x\<bar> - 52) (- 1074);
               n = roundHalfEven (\<bar>x\<bar> / pow2 e)
           in sgn x * of_int n * pow2 e)"

definition toDouble :: "rat \<Rightarrow> jsnum" where
  "toDouble x =
     (let y = fl x
      in if y \<noteq> 0 \<and> 1024 \<le> ilog2 \<bar>y\<bar> then (if 0 < y then PosInf else NegInf)
         else Num y)"

text \<open>The operators the scripts use, on two numbers: \<open>*\<close>, \<open>/\<close>, \<open>+\<close>, \<open><\<close> and \<open>>=\<close>.\<close>

fun js_mul :: "jsnum \<Rightarrow> jsnum \<Rightarrow> jsnum" where
  "js_mul (Num x) (Num y) = toDouble (x * y)"
| "js_mul NaN _ = NaN"
| "js_mul _ NaN = NaN"
| "js_mul (Num x) PosInf = (if x = 0 then NaN else if 0 < x then PosInf else NegInf)"
| "js_mul (Num x) NegInf = (if x = 0 then NaN else if 0 < x then NegInf else PosInf)"
| "js_mul PosInf (Num y) = (if y = 0 then NaN else if 0 < y then PosInf else NegInf)"
| "js_mul NegInf (Num y) = (if y = 0 then NaN else if 0 < y then NegInf else PosInf)"
| "js_mul PosInf PosInf = PosInf"
| "js_mul NegInf NegInf = PosInf"
| "js_mul PosInf NegInf = NegInf"
| "js_mul NegInf PosInf = NegInf"

fun js_div :: "jsnum \<Rightarrow> jsnum \<Rightarrow> jsnum" where
  "js_div (Num x) (Num y) =
     (if y = 0 then (if x = 0 then NaN else if 0 < x then PosInf else NegInf)
      else toDouble (x / y))"
| "js_div NaN _ = NaN"
| "js_div _ NaN = NaN"
| "js_div (Num x) _ = Num 0"
| "js_div PosInf (Num y) = (if 0 \<le> y then PosInf else NegInf)"
| "js_div NegInf (Num y) = (if 0 \<le> y then NegInf else PosInf)"
| "js_div _ _ = NaN"

fun js_add :: "jsnum \<Rightarrow> jsnum \<Rightarrow> jsnum" where
  "js_add (Num x) (Num y) = toDouble (x + y)"
| "js_add NaN _ = NaN"
| "js_add _ NaN = NaN"
| "js_add PosInf NegInf = NaN"
| "js_add NegInf PosInf = NaN"
| "js_add PosInf _ = PosInf"
| "js_add NegInf _ = NegInf"
| "js_add _ PosInf = PosInf"
| "js_add _ NegInf = NegInf"

fun js_lt :: "jsnum \<Rightarrow> jsnum \<Rightarrow> bool" where
  "js_lt (Num x) (Num y) = (x < y)"
| "js_lt NaN _ = False"
| "js_lt _ NaN = False"
| "js_lt NegInf NegInf = False"
| "js_lt NegInf _ = True"
| "js_lt PosInf _ = False"
| "js_lt (Num x) PosInf = True"
| "js_lt (Num x) NegInf = False"

fun js_ge :: "jsnum \<Rightarrow> jsnum \<Rightarrow> bool" where
  "js_ge (Num x) (Num y) = (y \<le> x)"
| "js_ge NaN _ = False"
| "js_ge _ NaN = False"
| "js_ge PosInf _ = True"
| "js_ge _ NegInf = True"
| "js_ge _ _ = False"

text \<open>\<open>!x\<close> on a number: true for zero and for \<open>NaN\<close>.\<close>

fun js_not :: "jsnum \<Rightarrow> bool" where
  "js_not NaN = True"
| "js_not (Num x) = (x = 0)"
| "js_not _ = False"

text \<open>
  \<open>Math.round\<close>: the integer nearest to the argument, a tie going up; the result is
  computed exactly, and it is a binary64 value when the argument is one.
\<close>

fun Math_round :: "jsnum \<Rightarrow> jsnum" where
  "Math_round (Num x) = Num (of_int \<lfloor>x + 1 / 2\<rfloor>)"
| "Math_round v = v"

text \<open>The literals \<open>0.019\<close> and \<open>0.1\<close> of the calculator.\<close>

definition lit_0_019 :: jsnum where
  "lit_0_019 = toDouble (19 / 1000)"

definition lit_0_1 :: jsnum where
  "lit_0_1 = toDouble (1 / 10)"

section \<open>Silverchef calculator modal (class SilverchefCalculator)\<close>

text \<open>
  What the script takes from its host, as parameters: \<open>parseFloat\<close>, the conversion of
  a string operand of \<open>/\<close> to a number, the conversion of a number to the string
  assigned to an input's \<open>value\<close>, and
  \<open>new Intl.NumberFormat('en-AU', {style: 'currency', currency: 'AUD'}).format\<close>.
\<close>

record host =
  parseFloat :: "string \<Rightarrow> jsnum"
  stringToNumber :: "string \<Rightarrow> jsnum"
  numberToString :: "jsnum \<Rightarrow> string"
  formatAUD :: "jsnum \<Rightarrow> string"

text \<open>
  The elements of the page the modal uses. An element that the page does not have is
  \<open>None\<close>; a container is given by its \<open>style.display\<close>, the amount field by its
  \<open>value\<close>, the error container by its display and the text of its paragraph, and
  the elements that \<open>updateElement\<close> looks up inside the modal by their selector and
  \<open>textContent\<close>.
\<close>

record modal_el =
  modal_active :: bool
  modal_aria_hidden :: "string option"

record error_el =
  error_display :: string
  error_text :: string

text \<open>The object \<open>calculateStaticPayments\<close> returns, its nested fields written out.\<close>

record results =
  finance_amount :: string
  weekly_amount :: string
  upfront_costs_total :: string
  upfront_costs_breakdown_advance_payment :: string
  upfront_costs_breakdown_bond :: string
  totals_rent_after_12_months :: string
  totals_out_of_pocket :: string

text \<open>
  The callbacks waiting for a timer: the focus of the amount field 100 ms after
  \<open>openModal\<close>, and the rest of \<open>calculatePayments\<close> after its \<open>await\<close> of 1500 ms,
  with the results computed before the wait.
\<close>

datatype calc_callback = FocusAmount | ShowResultsAfterDelay results

text \<open>
  The page and the instance. The fields of the instance (\<open>modal\<close> to
  \<open>errorContainer\<close>) are references to elements of the page: \<open>True\<close> when the
  field is set, \<open>False\<close> when it is null.
\<close>

record calculator =
  dom_modal :: "modal_el option"
  dom_amount :: "string option"
  dom_calculate :: bool
  dom_results :: "string option"
  dom_loading :: "string option"
  dom_breakdown :: "string option"
  dom_error :: "error_el option"
  dom_slots :: "string \<rightharpoonup> string"
  body_overflow :: string
  amount_focused :: bool
  modal :: bool
  amountInput :: bool
  calculateButton :: bool
  resultsContainer :: bool
  loadingContainer :: bool
  breakdownContainer :: bool
  errorContainer :: bool
  calc_timers :: "(rat \<times> calc_callback) list"
  console_errors :: "string list"

text \<open>What a field of the instance refers to: the element, or null.\<close>

definition thisModal :: "calculator \<Rightarrow> modal_el option" where
  "thisModal s = (if modal s then dom_modal s else None)"

definition thisAmountInput :: "calculator \<Rightarrow> string option" where
  "thisAmountInput s = (if amountInput s then dom_amount s else None)"

definition thisResultsContainer :: "calculator \<Rightarrow> string option" where
  "thisResultsContainer s = (if resultsContainer s then dom_results s else None)"

definition thisLoadingContainer :: "calculator \<Rightarrow> string option" where
  "thisLoadingContainer s = (if loadingContainer s then dom_loading s else None)"

definition thisBreakdownContainer :: "calculator \<Rightarrow> string option" where
  "thisBreakdownContainer s = (if breakdownContainer s then dom_breakdown s else None)"

definition thisErrorContainer :: "calculator \<Rightarrow> error_el option" where
  "thisErrorContainer s = (if errorContainer s then dom_error s else None)"

definition calcSetTimeout :: "calc_callback \<Rightarrow> rat \<Rightarrow> calculator \<Rightarrow> calculator" where
  "calcSetTimeout cb delay s = s\<lparr>calc_timers := calc_timers s @ [(delay, cb)]\<rparr>"

text \<open>
  \<open>openModal\<close>. The argument is \<open>triggerElement.getAttribute('data-product-price')\<close>:
  the attribute's string, or null. In \<open>productPrice / 100\<close> null counts as 0 and a
  string is converted by the host.
\<close>

definition toNumber :: "host \<Rightarrow> string option \<Rightarrow> jsnum" where
  "toNumber h v = (case v of None \<Rightarrow> Num 0 | Some str \<Rightarrow> stringToNumber h str)"

definition productAmountOf :: "host \<Rightarrow> string option \<Rightarrow> jsnum" where
  "productAmountOf h productPrice = Math_round (js_div (toNumber h productPrice) (Num 100))"

definition openModal :: "host \<Rightarrow> string option \<Rightarrow> calculator \<Rightarrow> calculator" where
  "openModal h productPrice s =
     (case dom_modal s of
        None \<Rightarrow> s\<lparr>modal := False\<rparr>
      | Some m \<Rightarrow>
          let productAmount = productAmountOf h productPrice;
              s1 = s\<lparr>modal := True,
                     amountInput := (dom_amount s \<noteq> None),
                     calculateButton := dom_calculate s,
                     resultsContainer := (dom_results s \<noteq> None),
                     loadingContainer := (dom_loading s \<noteq> None),
                     breakdownContainer := (dom_breakdown s \<noteq> None),
                     errorContainer := (dom_error s \<noteq> None)\<rparr>;
              s2 = (if thisAmountInput s1 \<noteq> None \<and> js_ge productAmount (Num 500)
                    then s1\<lparr>dom_amount := Some (numberToString h productAmount)\<rparr>
                    else s1);
              s3 = s2\<lparr>dom_modal := Some (m\<lparr>modal_active := True,
                                              modal_aria_hidden := Some ''false''\<rparr>)\<rparr>;
              s4 = calcSetTimeout FocusAmount 100 s3
          in s4\<lparr>body_overflow := ''hidden''\<rparr>)"

definition focusAmountCallback :: "calculator \<Rightarrow> calculator" where
  "focusAmountCallback s =
     (if thisAmountInput s \<noteq> None then s\<lparr>amount_focused := True\<rparr> else s)"

text \<open>
  The guarded assignments \<open>if (this.c) this.c.style.display = v\<close> for the four
  containers.
\<close>

definition setResultsDisplay :: "string \<Rightarrow> calculator \<Rightarrow> calculator" where
  "setResultsDisplay v s =
     (if thisResultsContainer s \<noteq> None then s\<lparr>dom_results := Some v\<rparr> else s)"

definition setLoadingDisplay :: "string \<Rightarrow> calculator \<Rightarrow> calculator" where
  "setLoadingDisplay v s =
     (if thisLoadingContainer s \<noteq> None then s\<lparr>dom_loading := Some v\<rparr> else s)"

definition setBreakdownDisplay :: "string \<Rightarrow> calculator \<Rightarrow> calculator" where
  "setBreakdownDisplay v s =
     (if thisBreakdownContainer s \<noteq> None then s\<lparr>dom_breakdown := Some v\<rparr> else s)"

definition setErrorDisplay :: "string \<Rightarrow> calculator \<Rightarrow> calculator" where
  "setErrorDisplay v s =
     (case thisErrorContainer s of
        None \<Rightarrow> s
      | Some e \<Rightarrow> s\<lparr>dom_error := Some (e\<lparr>error_display := v\<rparr>)\<rparr>)"

definition hideAllResults :: "calculator \<Rightarrow> calculator" where
  "hideAllResults s =
     setErrorDisplay ''none''
       (setBreakdownDisplay ''none'' (setLoadingDisplay ''none'' (setResultsDisplay ''none'' s)))"

definition closeModal :: "calculator \<Rightarrow> calculator" where
  "closeModal s =
     (case thisModal s of
        None \<Rightarrow> s
      | Some m \<Rightarrow>
          let s1 = s\<lparr>dom_modal := Some (m\<lparr>modal_active := False,
                                            modal_aria_hidden := Some ''true''\<rparr>)\<rparr>;
              s2 = hideAllResults s1
          in s2\<lparr>body_overflow := []\<rparr>)"

definition showLoading :: "calculator \<Rightarrow> calculator" where
  "showLoading s = setLoadingDisplay ''block'' (setResultsDisplay ''block'' (hideAllResults s))"

definition showError :: "string \<Rightarrow> calculator \<Rightarrow> calculator" where
  "showError message s =
     (let s1 = hideAllResults s
      in case thisErrorContainer s1 of
           None \<Rightarrow> s1
         | Some e \<Rightarrow>
             if thisResultsContainer s1 \<noteq> None
             then setErrorDisplay ''block''
                    (setResultsDisplay ''block''
                       (s1\<lparr>dom_error := Some (e\<lparr>error_text := message\<rparr>)\<rparr>))
             else s1)"

text \<open>
  \<open>updateElement\<close> reads \<open>this.modal.querySelector\<close>, which throws a TypeError when
  \<open>this.modal\<close> is null: \<open>Inl\<close> is the state at the throw, \<open>Inr\<close> the state at the
  return. \<open>andThen\<close> runs the next statement unless the one before threw.
\<close>

definition setTextContent :: "string \<Rightarrow> string \<Rightarrow> calculator \<Rightarrow> calculator" where
  "setTextContent selector v s =
     (case dom_slots s selector of
        None \<Rightarrow> s
      | Some _ \<Rightarrow> s\<lparr>dom_slots := (dom_slots s)(selector \<mapsto> v)\<rparr>)"

definition updateElement :: "string \<Rightarrow> string \<Rightarrow> calculator \<Rightarrow> calculator + calculator" where
  "updateElement selector v s =
     (case thisModal s of
        None \<Rightarrow> Inl s
      | Some _ \<Rightarrow> Inr (setTextContent selector v s))"

definition andThen ::
  "calculator + calculator \<Rightarrow> (calculator \<Rightarrow> calculator + calculator) \<Rightarrow> calculator + calculator"
where
  "andThen r f = (case r of Inl s \<Rightarrow> Inl s | Inr s \<Rightarrow> f s)"

definition showResults :: "results \<Rightarrow> calculator \<Rightarrow> calculator + calculator" where
  "showResults r s =
     (let s1 = hideAllResults s
      in if thisResultsContainer s1 = None \<or> thisBreakdownContainer s1 = None then Inr s1
         else
           andThen (updateElement ''#weekly-payment'' (weekly_amount r) s1) (\<lambda>s2.
           andThen (updateElement ''#advance-payment'' (upfront_costs_breakdown_advance_payment r) s2) (\<lambda>s3.
           andThen (updateElement ''#security-bond'' (upfront_costs_breakdown_bond r) s3) (\<lambda>s4.
           andThen (updateElement ''#total-upfront'' (upfront_costs_total r) s4) (\<lambda>s5.
           andThen (updateElement ''#total-rent'' (totals_rent_after_12_months r) s5) (\<lambda>s6.
           andThen (updateElement ''#out-of-pocket'' (totals_out_of_pocket r) s6) (\<lambda>s7.
             Inr (setBreakdownDisplay ''block'' (setResultsDisplay ''block'' s7)))))))))"

text \<open>The six calls of \<open>updateElement\<close> in \<open>showResults\<close>, when none of them throws.\<close>

definition fillSlots :: "results \<Rightarrow> calculator \<Rightarrow> calculator" where
  "fillSlots r s =
     setTextContent ''#out-of-pocket'' (totals_out_of_pocket r)
       (setTextContent ''#total-rent'' (totals_rent_after_12_months r)
         (setTextContent ''#total-upfront'' (upfront_costs_total r)
           (setTextContent ''#security-bond'' (upfront_costs_breakdown_bond r)
             (setTextContent ''#advance-payment'' (upfront_costs_breakdown_advance_payment r)
               (setTextContent ''#weekly-payment'' (weekly_amount r) s)))))"

definition formatCurrency :: "host \<Rightarrow> jsnum \<Rightarrow> string" where
  "formatCurrency h amount = formatAUD h amount"

definition weeklyPayment :: "jsnum \<Rightarrow> jsnum" where
  "weeklyPayment amount =
     js_div (Math_round (js_mul (js_mul amount lit_0_019) (Num 100))) (Num 100)"

definition securityBond :: "jsnum \<Rightarrow> jsnum" where
  "securityBond amount =
     js_div (Math_round (js_mul (js_mul amount lit_0_1) (Num 100))) (Num 100)"

definition calculateStaticPayments :: "host \<Rightarrow> jsnum \<Rightarrow> results" where
  "calculateStaticPayments h amount =
     (let advancePayment = weeklyPayment amount;
          totalUpfront = js_add advancePayment (securityBond amount);
          totalRent12Months = js_mul (weeklyPayment amount) (Num 52);
          outOfPocket = totalRent12Months
      in \<lparr>finance_amount = formatCurrency h amount,
          weekly_amount = formatCurrency h (weeklyPayment amount),
          upfront_costs_total = formatCurrency h totalUpfront,
          upfront_costs_breakdown_advance_payment = formatCurrency h advancePayment,
          upfront_costs_breakdown_bond = formatCurrency h (securityBond amount),
          totals_rent_after_12_months = formatCurrency h totalRent12Months,
          totals_out_of_pocket = formatCurrency h outOfPocket\<rparr>)"

text \<open>
  \<open>calculatePayments\<close> up to its \<open>await\<close>, and the rest of it, run when the 1500 ms
  timer fires. \<open>rejected\<close> is the validation test \<open>!amount || amount < 500\<close>.
\<close>

definition rejected :: "jsnum \<Rightarrow> bool" where
  "rejected amount = (js_not amount \<or> js_lt amount (Num 500))"

definition calculatePayments :: "host \<Rightarrow> calculator \<Rightarrow> calculator" where
  "calculatePayments h s =
     (case thisAmountInput s of
        None \<Rightarrow> s
      | Some v \<Rightarrow>
          let amount = parseFloat h v
          in if rejected amount then showError ''Please enter an amount of $500 or more.'' s
             else
               let s1 = showLoading s;
                   r = calculateStaticPayments h amount
               in calcSetTimeout (ShowResultsAfterDelay r) 1500 s1)"

definition showResultsAfterDelay :: "results \<Rightarrow> calculator \<Rightarrow> calculator" where
  "showResultsAfterDelay r s =
     (case showResults r s of
        Inr s' \<Rightarrow> s'
      | Inl s' \<Rightarrow>
          showError ''Unable to calculate payments. Please try again.''
            (s'\<lparr>console_errors := console_errors s' @ [''Calculator error:'']\<rparr>))"

definition calcFire :: "nat \<Rightarrow> calculator \<Rightarrow> calculator" where
  "calcFire k s =
     (if k < length (calc_timers s)
      then let s' = s\<lparr>calc_timers := take k (calc_timers s) @ drop (Suc k) (calc_timers s)\<rparr>
           in case snd (calc_timers s ! k) of
                FocusAmount \<Rightarrow> focusAmountCallback s'
              | ShowResultsAfterDelay r \<Rightarrow> showResultsAfterDelay r s'
      else s)"

text \<open>
  A concrete host for plain inputs: \<open>parseFloat\<close> and the conversion of a string read a
  string of decimal digits (anything else is \<open>NaN\<close> here), a natural number is printed
  in decimal digits, and a non-negative amount is formatted with a dollar sign, groups
  of three digits and two decimals.
\<close>

definition digitValue :: "char \<Rightarrow> int option" where
  "digitValue c =
     (let n = (of_char c :: int) in if 48 \<le> n \<and> n \<le> 57 then Some (n - 48) else None)"

fun readDigits :: "int \<Rightarrow> string \<Rightarrow> int option" where
  "readDigits acc [] = Some acc"
| "readDigits acc (c # cs) =
     (case digitValue c of None \<Rightarrow> None | Some d \<Rightarrow> readDigits (10 * acc + d) cs)"

definition readDecimal :: "string \<Rightarrow> jsnum" where
  "readDecimal str =
     (if str = [] then NaN
      else case readDigits 0 str of None \<Rightarrow> NaN | Some n \<Rightarrow> toDouble (of_int n))"

function digitsOf :: "int \<Rightarrow> string" where
  "digitsOf n =
     (if n < 10 then [char_of (48 + n)]
      else digitsOf (n div 10) @ [char_of (48 + n mod 10)])"
  by pat_completeness auto
termination
  by (relation "measure nat") auto

declare digitsOf.simps [simp del]

fun groupThousands :: "string \<Rightarrow> string" where
  "groupThousands (a # b # c # d # rest) = a # b # c # CHR '','' # groupThousands (d # rest)"
| "groupThousands cs = cs"

definition printNumber :: "jsnum \<Rightarrow> string" where
  "printNumber v =
     (case v of
        Num x \<Rightarrow> (if 0 \<le> x \<and> of_int \<lfloor>x\<rfloor> = x then digitsOf \<lfloor>x\<rfloor> else ''?'')
      | NaN \<Rightarrow> ''NaN''
      | PosInf \<Rightarrow> ''Infinity''
      | NegInf \<Rightarrow> ''-Infinity'')"

definition printAUD :: "jsnum \<Rightarrow> string" where
  "printAUD v =
     (case v of
        Num x \<Rightarrow>
          (if 0 \<le> x then
             let cents = \<lfloor>x * 100 + 1 / 2\<rfloor>;
                 c = cents mod 100
             in ''$'' @ rev (groupThousands (rev (digitsOf (cents div 100)))) @ ''.''
                  @ digitsOf (c div 10) @ digitsOf (c mod 10)
           else ''?'')
      | _ \<Rightarrow> ''?'')"

definition plain_host :: host where
  "plain_host =
     \<lparr>parseFloat = readDecimal, stringToNumber = readDecimal,
      numberToString = printNumber, formatAUD = printAUD\<rparr>"

text \<open>
  A concrete page with the complete modal, never opened, and the same page after the
  modal was opened from a trigger priced at 100000 cents.
\<close>

definition calc_page :: calculator where
  "calc_page =
     \<lparr>dom_modal = Some \<lparr>modal_active = False, modal_aria_hidden = Some ''true''\<rparr>,
      dom_amount = Some [],
      dom_calculate = True,
      dom_results = Some ''none'', dom_loading = Some ''none'',
      dom_breakdown = Some ''none'',
      dom_error = Some \<lparr>error_display = ''none'', error_text = []\<rparr>,
      dom_slots = [''#weekly-payment'' \<mapsto> [], ''#advance-payment'' \<mapsto> [],
                   ''#security-bond'' \<mapsto> [], ''#total-upfront'' \<mapsto> [],
                   ''#total-rent'' \<mapsto> [], ''#out-of-pocket'' \<mapsto> []],
      body_overflow = [], amount_focused = False,
      modal = False, amountInput = False, calculateButton = False,
      resultsContainer = False, loadingContainer = False, breakdownContainer = False,
      errorContainer = False,
      calc_timers = [], console_errors = []\<rparr>"

definition opened_page :: calculator where
  "opened_page = openModal plain_host (Some ''100000'') calc_page"

section \<open>Properties of the accordion\<close>

lemma states_setState:
  "states (setState i v c) = (states c)[i := Some v]"
  by (simp add: states_def setState_def map_update)

lemma states_updateAria [simp]:
  "states (updateAriaAttributes c) = states c"
  by (simp add: states_def updateAriaAttributes_def comp_def)

lemma states_dispatch [simp]:
  "states (dispatchCustomEvent i n c) = states c"
  by (simp add: states_def dispatchCustomEvent_def)

lemma states_toggleStep:
  "states (toggleStep i j c) =
   (states c)[j := Some (if j = i then ''expanded'' else ''collapsed'')]"
  by (simp add: toggleStep_def expandBlock_def collapseBlock_def states_setState)

lemma sides_toggleStep [simp]:
  "sides (toggleStep i j c) = sides c"
  by (simp add: toggleStep_def expandBlock_def collapseBlock_def sides_def setState_def
      updateAriaAttributes_def dispatchCustomEvent_def comp_def map_update)
    (metis list_update_id map_update)

lemma length_toggleStep [simp]:
  "length (mobileBlocks (toggleStep i j c)) = length (mobileBlocks c)"
  by (simp add: toggleStep_def expandBlock_def collapseBlock_def setState_def
      updateAriaAttributes_def dispatchCustomEvent_def)

lemma width_toggleStep [simp]:
  "innerWidth (toggleStep i j c) = innerWidth c" "breakpoint (toggleStep i j c) = breakpoint c"
  by (simp_all add: toggleStep_def expandBlock_def collapseBlock_def setState_def
      updateAriaAttributes_def dispatchCustomEvent_def)

lemma dispatched_toggleStep:
  "j < length (mobileBlocks c) \<Longrightarrow>
   dispatched (toggleStep i j c) = dispatched c @
     [\<lparr>event_name = (if j = i then ''comparison:expanded'' else ''comparison:collapsed''),
       detail_block = j, detail_side = sides c ! j\<rparr>]"
  by (simp add: toggleStep_def expandBlock_def collapseBlock_def setState_def
      updateAriaAttributes_def dispatchCustomEvent_def sides_def)

lemma fold_toggleStep:
  "set js \<subseteq> {..<length (mobileBlocks c)} \<Longrightarrow>
   states (fold (toggleStep i) js c) =
     fold (\<lambda>j s. s[j := Some (if j = i then ''expanded'' else ''collapsed'')]) js (states c)
   \<and> sides (fold (toggleStep i) js c) = sides c
   \<and> length (mobileBlocks (fold (toggleStep i) js c)) = length (mobileBlocks c)
   \<and> innerWidth (fold (toggleStep i) js c) = innerWidth c
   \<and> breakpoint (fold (toggleStep i) js c) = breakpoint c
   \<and> dispatched (fold (toggleStep i) js c) = dispatched c @
        map (\<lambda>j. \<lparr>event_name = (if j = i then ''comparison:expanded'' else ''comparison:collapsed''),
       detail_block = j, detail_side = sides c ! j\<rparr>) js"
proof (induction js arbitrary: c)
  case Nil
  then show ?case by simp
next
  case (Cons j js)
  have j: "j < length (mobileBlocks c)" using Cons.prems by simp
  have "set js \<subseteq> {..<length (mobileBlocks (toggleStep i j c))}"
    using Cons.prems by simp
  from Cons.IH [OF this] show ?case
    by (simp add: states_toggleStep dispatched_toggleStep [OF j])
qed

lemma fold_update_upt:
  "n \<le> length s \<Longrightarrow>
   fold (\<lambda>j s. s[j := f j]) [0..<n] s = map f [0..<n] @ drop n s"
proof (induction n)
  case 0
  then show ?case by simp
next
  case (Suc n)
  then have "fold (\<lambda>j s. s[j := f j]) [0..<Suc n] s = (map f [0..<n] @ drop n s)[n := f n]"
    by simp
  also have "\<dots> = map f [0..<n] @ (drop n s)[0 := f n]"
    by (simp add: list_update_append)
  also have "(drop n s)[0 := f n] = f n # drop (Suc n) s"
    using Suc.prems by (metis Cons_nth_drop_Suc Suc_le_lessD list_update_code(2))
  finally show ?case by simp
qed


lemma handleToggle_effect:
  assumes "isMobileView c"
  shows "states (handleToggle (Some i) c) = toggled i (length (mobileBlocks c))"
    and "sides (handleToggle (Some i) c) = sides c"
    and "length (mobileBlocks (handleToggle (Some i) c)) = length (mobileBlocks c)"
    and "isMobileView (handleToggle (Some i) c)"
    and "dispatched (handleToggle (Some i) c) =
           dispatched c @ map (toggleEvent i c) [0..<length (mobileBlocks c)]"
proof -
  let ?n = "length (mobileBlocks c)"
  have sub: "set [0..<?n] \<subseteq> {..<?n}" by auto
  note f = fold_toggleStep [OF sub, of i]
  have h: "handleToggle (Some i) c = fold (toggleStep i) [0..<?n] c"
    using assms by (simp add: handleToggle_def)
  have len: "length (states c) = ?n" by (simp add: states_def)
  show "states (handleToggle (Some i) c) = toggled i ?n"
    using f by (simp add: h fold_update_upt len toggled_def)
  show "sides (handleToggle (Some i) c) = sides c" using f by (simp add: h)
  show "length (mobileBlocks (handleToggle (Some i) c)) = ?n" using f by (simp add: h)
  show "isMobileView (handleToggle (Some i) c)"
    using f assms by (simp add: h isMobileView_def)
  show "dispatched (handleToggle (Some i) c) = dispatched c @ map (toggleEvent i c) [0..<?n]"
    using f by (simp add: h toggleEvent_def sides_def)
qed

lemma expandedBlocks_states:
  "expandedBlocks c = filter (\<lambda>j. states c ! j = Some ''expanded'') [0..<length (states c)]"
  by (auto simp: expandedBlocks_def states_def intro: filter_cong)

lemma filter_eq_upt: "i < n \<Longrightarrow> filter (\<lambda>j. j = i) [0..<n] = [i]"
proof (induction n)
  case 0 then show ?case by simp
next
  case (Suc n)
  show ?case
  proof (cases "i = n")
    case True
    have "filter (\<lambda>j. j = n) [0..<n] = []" by (auto simp: filter_empty_conv)
    then show ?thesis using True by simp
  next
    case False
    then show ?thesis using Suc by simp
  qed
qed

lemma expanded_toggled:
  assumes "states c = toggled i (length (mobileBlocks c))" "i < length (mobileBlocks c)"
  shows "expandedBlocks c = [i]"
proof -
  have "expandedBlocks c = filter (\<lambda>j. j = i) [0..<length (mobileBlocks c)]"
    unfolding expandedBlocks_states assms(1)
    by (auto simp: toggled_def intro!: filter_cong split: if_splits)
  then show ?thesis using assms(2) by (simp add: filter_eq_upt)
qed

lemma two_blocks_toggle:
  "handleToggle (Some 0) two_blocks =
     two_blocks\<lparr>dispatched :=
       [\<lparr>event_name = ''comparison:expanded'', detail_block = 0, detail_side = Some ''left''\<rparr>,
        \<lparr>event_name = ''comparison:collapsed'', detail_block = 1, detail_side = Some ''right''\<rparr>]\<rparr>"
  by (simp add: handleToggle_def two_blocks_def isMobileView_def toggleStep_def expandBlock_def
     collapseBlock_def setState_def updateAriaAttributes_def dispatchCustomEvent_def upt_rec)

section \<open>Properties of the alphabet filter\<close>

subsection \<open>One animation at a time\<close>

lemma pending_append:
  "pendingAnimations (s\<lparr>timers := timers s @ [(d, cb)]\<rparr>) =
     pendingAnimations s + (if isAnimationCallback cb then 1 else 0)"
  by (simp add: pendingAnimations_def)

lemma inv_updateEmptyState [simp]:
  "timers (updateEmptyState b s) = timers s"
  "isAnimating (updateEmptyState b s) = isAnimating s"
  "enableAnimation (updateEmptyState b s) = enableAnimation s"
  by (simp_all add: updateEmptyState_def split: option.splits)

lemma inv_updateActiveButton [simp]:
  "timers (updateActiveButton l s) = timers s"
  "isAnimating (updateActiveButton l s) = isAnimating s"
  "enableAnimation (updateActiveButton l s) = enableAnimation s"
  by (simp_all add: updateActiveButton_def)

lemma inv_updateCounts [simp]:
  "timers (updateCounts s) = timers s"
  "isAnimating (updateCounts s) = isAnimating s"
  "enableAnimation (updateCounts s) = enableAnimation s"
  by (simp_all add: updateCounts_def)

lemma inv_updateURL [simp]:
  "timers (updateURL l s) = timers s"
  "isAnimating (updateURL l s) = isAnimating s"
  "enableAnimation (updateURL l s) = enableAnimation s"
  by (simp_all add: updateURL_def pushState_def)

lemma inv_instantFilter [simp]:
  "timers (instantFilter l s) = timers s"
  "isAnimating (instantFilter l s) = isAnimating s"
  "enableAnimation (instantFilter l s) = enableAnimation s"
  by (simp_all add: instantFilter_def Let_def)

lemma inv_announce [simp]:
  "timers (announceFilterChange l s) = timers s @ [(1000, RemoveAnnouncement (created s))]"
  "isAnimating (announceFilterChange l s) = isAnimating s"
  "enableAnimation (announceFilterChange l s) = enableAnimation s"
  by (simp_all add: announceFilterChange_def announceToScreenReader_def setTimeout_def Let_def)

lemma inv_animateFilter [simp]:
  "timers (animateFilter l s) =
     timers s @ [(animationDuration s / 2, ShowCards (cardsToShow l s))]"
  "isAnimating (animateFilter l s) = True"
  "enableAnimation (animateFilter l s) = enableAnimation s"
  by (simp_all add: animateFilter_def setTimeout_def Let_def cardsToShow_def)

lemma pending_cong: "timers s = timers s' \<Longrightarrow> pendingAnimations s = pendingAnimations s'"
  by (simp add: pendingAnimations_def)

lemma pending_timers_append:
  "timers s' = timers s @ [(d, cb)] \<Longrightarrow>
   pendingAnimations s' = pendingAnimations s + (if isAnimationCallback cb then 1 else 0)"
  by (simp add: pendingAnimations_def)


lemma animInv_eq:
  "timers s' = timers s \<Longrightarrow> isAnimating s' = isAnimating s \<Longrightarrow> animInv s' = animInv s"
  by (simp add: animInv_def pendingAnimations_def)

lemma animInv_updateURL [simp]: "animInv (updateURL l s) = animInv s"
  by (rule animInv_eq) simp_all

lemma animInv_updateCounts [simp]: "animInv (updateCounts s) = animInv s"
  by (rule animInv_eq) simp_all


lemma animInv_hash [simp]: "animInv (s\<lparr>location_hash := h\<rparr>) = animInv s"
  by (rule animInv_eq) simp_all









subsection \<open>Letters and disabled buttons never change\<close>

lemma forEachAt_length [simp]: "length (forEachAt js f xs) = length xs"
  unfolding forEachAt_def by (induction js arbitrary: xs) simp_all

lemma forEachAt_letters:
  assumes "\<And>c. card_letter (f c) = card_letter c"
  shows "map card_letter (forEachAt js f xs) = map card_letter xs"
  unfolding forEachAt_def
proof (induction js arbitrary: xs)
  case Nil
  then show ?case by simp
next
  case (Cons j js)
  have "map card_letter (xs[j := f (xs ! j)]) = map card_letter xs"
    by (cases "j < length xs") (simp_all add: map_update assms list_update_same_conv list_update_beyond)
  then show ?case using Cons.IH [of "xs[j := f (xs ! j)]"] by simp
qed

lemma view_updateEmptyState [simp]:
  "alphabetButtons (updateEmptyState b s) = alphabetButtons s"
  "brandCards (updateEmptyState b s) = brandCards s"
  "currentFilter (updateEmptyState b s) = currentFilter s"
  "pushed (updateEmptyState b s) = pushed s"
  by (simp_all add: updateEmptyState_def split: option.splits)

lemma view_updateURL [simp]:
  "alphabetButtons (updateURL l s) = alphabetButtons s"
  "brandCards (updateURL l s) = brandCards s"
  "currentFilter (updateURL l s) = currentFilter s"
  by (simp_all add: updateURL_def pushState_def)

lemma view_announce [simp]:
  "alphabetButtons (announceFilterChange l s) = alphabetButtons s"
  "brandCards (announceFilterChange l s) = brandCards s"
  "currentFilter (announceFilterChange l s) = currentFilter s"
  "pushed (announceFilterChange l s) = pushed s"
  by (simp_all add: announceFilterChange_def announceToScreenReader_def setTimeout_def Let_def)

lemma view_updateActiveButton [simp]:
  "buttonView (updateActiveButton l s) = buttonView s"
  "brandCards (updateActiveButton l s) = brandCards s"
  "currentFilter (updateActiveButton l s) = currentFilter s"
  "pushed (updateActiveButton l s) = pushed s"
  by (simp_all add: updateActiveButton_def buttonView_def Let_def comp_def)

lemma view_animateFilter [simp]:
  "alphabetButtons (animateFilter l s) = alphabetButtons s"
  "cardLetters (animateFilter l s) = cardLetters s"
  "currentFilter (animateFilter l s) = currentFilter s"
  "pushed (animateFilter l s) = pushed s"
  by (simp_all add: animateFilter_def setTimeout_def Let_def cardLetters_def forEachAt_letters)

lemma view_instantFilter [simp]:
  "alphabetButtons (instantFilter l s) = alphabetButtons s"
  "cardLetters (instantFilter l s) = cardLetters s"
  "currentFilter (instantFilter l s) = currentFilter s"
  "pushed (instantFilter l s) = pushed s"
  by (simp_all add: instantFilter_def Let_def cardLetters_def comp_def)

lemma view_field_updates [simp]:
  "buttonView (s\<lparr>currentFilter := l\<rparr>) = buttonView s"
  "cardLetters (s\<lparr>currentFilter := l\<rparr>) = cardLetters s"
  "buttonView (s\<lparr>location_hash := h\<rparr>) = buttonView s"
  "cardLetters (s\<lparr>location_hash := h\<rparr>) = cardLetters s"
  "buttonView (s\<lparr>timers := ts\<rparr>) = buttonView s"
  "cardLetters (s\<lparr>timers := ts\<rparr>) = cardLetters s"
  by (simp_all add: buttonView_def cardLetters_def)

lemma view_more [simp]:
  "buttonView (updateEmptyState b s) = buttonView s"
  "cardLetters (updateEmptyState b s) = cardLetters s"
  "buttonView (updateURL l s) = buttonView s"
  "cardLetters (updateURL l s) = cardLetters s"
  "buttonView (announceFilterChange l s) = buttonView s"
  "cardLetters (announceFilterChange l s) = cardLetters s"
  "cardLetters (updateActiveButton l s) = cardLetters s"
  "buttonView (animateFilter l s) = buttonView s"
  "buttonView (instantFilter l s) = buttonView s"
  by (simp_all add: buttonView_def cardLetters_def)

lemma view_filterByLetter [simp]:
  "buttonView (filterByLetter l h s) = buttonView s"
  "cardLetters (filterByLetter l h s) = cardLetters s"
  by (simp_all add: filterByLetter_def Let_def)

lemma currentFilter_filterByLetter:
  "\<not> (isAnimating s \<and> enableAnimation s) \<Longrightarrow> currentFilter (filterByLetter l h s) = l"
  by (auto simp add: filterByLetter_def Let_def)


lemma view_click [simp]:
  "buttonView (handleAlphabetClick i s) = buttonView s"
  "cardLetters (handleAlphabetClick i s) = cardLetters s"
  by (simp_all add: handleAlphabetClick_def Let_def)

lemma view_fire [simp]:
  "buttonView (fire k s) = buttonView s"
  "cardLetters (fire k s) = cardLetters s"
proof -
  have "buttonView (runCallback cb s') = buttonView s' \<and> cardLetters (runCallback cb s') = cardLetters s'"
    for cb s'
    by (cases cb)
      (simp_all add: runCallback_def showCardsCallback_def animationCompleteCallback_def
        removeAnnouncementCallback_def cleanupFilterClasses_def setTimeout_def Let_def
        buttonView_def cardLetters_def forEachAt_letters comp_def)
  then show "buttonView (fire k s) = buttonView s" "cardLetters (fire k s) = cardLetters s"
    by (simp_all add: fire_def)
qed

lemma view_step [simp]:
  "buttonView (step e s) = buttonView s"
  "cardLetters (step e s) = cardLetters s"
  by (cases e; simp add: step_def handleAlphabetKeydown_def handleShowAllClick_def
      handlePopState_def setFilter_def)+

lemma view_fold_step [simp]:
  "buttonView (fold step es s) = buttonView s"
  "cardLetters (fold step es s) = cardLetters s"
  by (induction es arbitrary: s) simp_all

lemma view_run:
  "buttonView (run es s) = buttonView (updateCounts s)"
  "cardLetters (run es s) = cardLetters s"
proof -
  let ?s1 = "handleInitialFilter (updateURL (currentFilter s) s)"
  have b: "buttonView ?s1 = buttonView s" and c: "cardLetters ?s1 = cardLetters s"
    by (simp_all add: handleInitialFilter_def Let_def)
  have u: "buttonView (updateCounts t) = buttonView (updateCounts t')"
    if "buttonView t = buttonView t'" "cardLetters t = cardLetters t'" for t t'
  proof -
    have l: "length (alphabetButtons t) = length (alphabetButtons t')"
      using that(1) unfolding buttonView_def by (metis length_map)
    have ex: "list_ex (\<lambda>c. card_letter c = Some x) (brandCards t)
              = list_ex (\<lambda>c. card_letter c = Some x) (brandCards t')" for x
    proof -
      have "list_ex (\<lambda>c. card_letter c = Some x) cs = (Some x \<in> set (map card_letter cs))" for cs
        by (force simp: list_ex_iff image_iff)
      then show ?thesis using that(2) unfolding cardLetters_def by (metis set_map)
    qed
    show ?thesis
    proof (rule nth_equalityI)
      show "length (buttonView (updateCounts t)) = length (buttonView (updateCounts t'))"
        using l by (simp add: buttonView_def updateCounts_def)
    next
      fix j assume "j < length (buttonView (updateCounts t))"
      then have j: "j < length (alphabetButtons t)" by (simp add: buttonView_def updateCounts_def)
      have "buttonView t ! j = buttonView t' ! j" using that(1) by simp
      then have e: "btn_letter (alphabetButtons t ! j) = btn_letter (alphabetButtons t' ! j)"
        "disabled (alphabetButtons t ! j) = disabled (alphabetButtons t' ! j)"
        using j l by (simp_all add: buttonView_def)
      show "buttonView (updateCounts t) ! j = buttonView (updateCounts t') ! j"
        using j l e ex by (simp add: buttonView_def updateCounts_def Let_def)
    qed
  qed
  show "buttonView (run es s) = buttonView (updateCounts s)"
    by (simp add: run_def init_def u [OF b c])
  have "cardLetters (updateCounts ?s1) = cardLetters ?s1"
    by (simp add: cardLetters_def updateCounts_def)
  then show "cardLetters (run es s) = cardLetters s"
    by (simp add: run_def init_def c)
qed

lemma click_disabled:
  "i < length (alphabetButtons s) \<Longrightarrow> snd (buttonView s ! i) \<Longrightarrow> handleAlphabetClick i s = s"
  by (simp add: handleAlphabetClick_def Let_def buttonView_def)

lemma updateCounts_disables:
  assumes "i < length (alphabetButtons s)"
    and "btn_letter (alphabetButtons s ! i) \<noteq> ''all''"
    and "\<not> list_ex (\<lambda>c. card_letter c = Some (btn_letter (alphabetButtons s ! i))) (brandCards s)"
  shows "snd (buttonView (updateCounts s) ! i)"
  using assms by (simp add: buttonView_def updateCounts_def Let_def)

subsection \<open>Requesting the current letter again\<close>

lemma click_same_letter:
  "currentFilter s = btn_letter (alphabetButtons s ! i) \<Longrightarrow> handleAlphabetClick i s = s"
  by (simp add: handleAlphabetClick_def Let_def)

lemma click_twice:
  assumes "i < length (alphabetButtons s)"
  shows "handleAlphabetClick i (handleAlphabetClick i s) = handleAlphabetClick i s"
proof (cases "isAnimating s \<or> disabled (alphabetButtons s ! i)
              \<or> btn_letter (alphabetButtons s ! i) = currentFilter s")
  case True
  then have "handleAlphabetClick i s = s" by (auto simp add: handleAlphabetClick_def Let_def)
  then show ?thesis by simp
next
  case False
  let ?l = "btn_letter (alphabetButtons s ! i)"
  let ?s' = "updateURL ?l (filterByLetter ?l True s)"
  have h: "handleAlphabetClick i s = ?s'"
    using False by (simp add: handleAlphabetClick_def Let_def)
  have c: "currentFilter ?s' = ?l"
    using False by (simp add: currentFilter_filterByLetter)
  have "buttonView ?s' = buttonView s" by simp
  then have "buttonView ?s' ! i = buttonView s ! i" by simp
  moreover have "length (alphabetButtons ?s') = length (alphabetButtons s)"
    using \<open>buttonView ?s' = buttonView s\<close> unfolding buttonView_def by (metis length_map)
  ultimately have "btn_letter (alphabetButtons ?s' ! i) = ?l"
    using assms by (simp add: buttonView_def)
  then have "handleAlphabetClick i ?s' = ?s'"
    using c by (simp add: click_same_letter)
  then show ?thesis by (simp add: h)
qed

lemma pushed_updateURL:
  "letter \<noteq> [] \<Longrightarrow> letter \<noteq> ''all'' \<Longrightarrow>
   pushed (updateURL letter s) = pushed s @ [''#letter-'' @ letter]"
  by (simp add: updateURL_def pushState_def)

lemma pushed_filterByLetter:
  assumes "\<not> (isAnimating s \<and> enableAnimation s)" "letter \<noteq> []" "letter \<noteq> ''all''"
  shows "pushed (filterByLetter letter True s) = pushed s @ [''#letter-'' @ letter]"
  using assms by (auto simp add: filterByLetter_def Let_def pushed_updateURL)

lemma cardsToShow_letters:
  "cardLetters s' = cardLetters s \<Longrightarrow> cardsToShow l s' = cardsToShow l s"
proof -
  assume a: "cardLetters s' = cardLetters s"
  then have len: "length (brandCards s') = length (brandCards s)"
    unfolding cardLetters_def by (metis length_map)
  have "cardMatchesFilter (brandCards s' ! j) l = cardMatchesFilter (brandCards s ! j) l"
    if "j < length (brandCards s)" for j
  proof -
    have "cardLetters s' ! j = cardLetters s ! j" using a by simp
    then show ?thesis using that len by (simp add: cardLetters_def cardMatchesFilter_def)
  qed
  then show ?thesis unfolding cardsToShow_def len by (auto intro: filter_cong)
qed

subsection \<open>The cards during an animation\<close>

lemma forEachAt_filter_upt:
  "n \<le> length xs \<Longrightarrow>
   forEachAt (filter P [0..<n]) f xs =
     map (\<lambda>j. if P j then f (xs ! j) else xs ! j) [0..<n] @ drop n xs"
proof (induction n)
  case 0
  then show ?case by (simp add: forEachAt_def)
next
  case (Suc n)
  let ?A = "map (\<lambda>j. if P j then f (xs ! j) else xs ! j) [0..<n]"
  have ih: "forEachAt (filter P [0..<n]) f xs = ?A @ drop n xs" using Suc by simp
  have d: "drop n xs = xs ! n # drop (Suc n) xs"
    using Suc.prems by (simp add: Cons_nth_drop_Suc)
  show ?case
  proof (cases "P n")
    case True
    have "forEachAt (filter P [0..<Suc n]) f xs =
            (?A @ drop n xs)[n := f ((?A @ drop n xs) ! n)]"
      using True ih by (simp add: forEachAt_def)
    also have "\<dots> = ?A @ f (xs ! n) # drop (Suc n) xs"
      by (simp add: list_update_append nth_append d)
    finally show ?thesis using True by simp
  next
    case False
    have "forEachAt (filter P [0..<Suc n]) f xs = ?A @ drop n xs"
      using False ih by (simp add: forEachAt_def)
    then show ?thesis using False d by simp
  qed
qed

lemma forEachAt_matching:
  assumes "length ys = length xs"
  shows "forEachAt (filter (\<lambda>j. Q (xs ! j)) [0..<length xs]) f ys =
           map2 (\<lambda>x y. if Q x then f y else y) xs ys"
proof -
  have "forEachAt (filter (\<lambda>j. Q (xs ! j)) [0..<length ys]) f ys =
          map (\<lambda>j. if Q (xs ! j) then f (ys ! j) else ys ! j) [0..<length ys]"
    using forEachAt_filter_upt [of "length ys" ys "\<lambda>j. Q (xs ! j)" f] by simp
  also have "\<dots> = map2 (\<lambda>x y. if Q x then f y else y) xs ys"
    using assms by (intro nth_equalityI) simp_all
  finally show ?thesis using assms by simp
qed

lemma map2_same: "map2 g xs (map h xs) = map (\<lambda>x. g x (h x)) xs"
  by (induction xs) simp_all

lemma map2_self: "map2 g xs xs = map (\<lambda>x. g x x) xs"
  by (induction xs) simp_all

lemma cards_animateFilter:
  "brandCards (animateFilter letter s) =
     map (\<lambda>c. if cardMatchesFilter c letter then c else hideCard c) (brandCards s)"
proof -
  have "brandCards (animateFilter letter s) =
          forEachAt (filter (\<lambda>j. \<not> cardMatchesFilter (brandCards s ! j) letter)
                       [0..<length (brandCards s)]) hideCard (brandCards s)"
    by (simp add: animateFilter_def Let_def setTimeout_def cardsToHide_def hideCard_def [abs_def])
  also have "\<dots> = map2 (\<lambda>x y. if \<not> cardMatchesFilter x letter then hideCard y else y)
                     (brandCards s) (brandCards s)"
    by (rule forEachAt_matching) simp
  finally show ?thesis by (simp add: map2_self if_distrib cong: if_cong)
qed

lemma cards_showCardsCallback:
  assumes "length (brandCards s1) = length (brandCards s)"
  shows "brandCards (showCardsCallback (cardsToShow letter s) s1) =
     map2 (\<lambda>x y. if cardMatchesFilter x letter then showCard y else y) (brandCards s) (brandCards s1)"
proof -
  have "brandCards (showCardsCallback (cardsToShow letter s) s1) =
          forEachAt (filter (\<lambda>j. cardMatchesFilter (brandCards s ! j) letter)
                       [0..<length (brandCards s)]) showCard (brandCards s1)"
    by (simp add: showCardsCallback_def Let_def setTimeout_def cardsToShow_def showCard_def [abs_def])
  then show ?thesis using forEachAt_matching [OF assms, of "\<lambda>c. cardMatchesFilter c letter" showCard]
    by simp
qed

lemma duration_updateEmptyState [simp]:
  "animationDuration (updateEmptyState b s) = animationDuration s"
  by (simp add: updateEmptyState_def split: option.splits)

subsection \<open>The show-all button during an animation\<close>



section \<open>Properties of the calculator\<close>

lemma weeklyPayment_1000: "weeklyPayment (Num 1000) = Num 19"
  by code_simp

lemma securityBond_1000: "securityBond (Num 1000) = Num 100"
  by code_simp

lemma totalUpfront_1000: "toDouble 119 = Num 119"
  by code_simp

lemma totalRent_1000: "toDouble 988 = Num 988"
  by code_simp

lemma plain_strings:
  "printAUD (Num 1000) = ''$1,000.00''" "printAUD (Num 19) = ''$19.00''"
  "printAUD (Num 119) = ''$119.00''" "printAUD (Num 100) = ''$100.00''"
  "printAUD (Num 988) = ''$988.00''"
  by code_simp+

lemma rejected_iff: "rejected a = (\<not> js_ge a (Num 500))"
  by (cases a) (auto simp: rejected_def)

lemma rejected_cases: "rejected a = (a = NaN \<or> a = Num 0 \<or> js_lt a (Num 500))"
  by (cases a) (auto simp: rejected_def)

lemmas this_defs =
  thisAmountInput_def thisModal_def thisResultsContainer_def thisLoadingContainer_def
  thisBreakdownContainer_def thisErrorContainer_def

lemma setResultsDisplay_keeps [simp]:
  "thisAmountInput (setResultsDisplay v s) = thisAmountInput s"
  "thisModal (setResultsDisplay v s) = thisModal s"
  "(thisResultsContainer (setResultsDisplay v s) = None) = (thisResultsContainer s = None)"
  "thisLoadingContainer (setResultsDisplay v s) = thisLoadingContainer s"
  "thisBreakdownContainer (setResultsDisplay v s) = thisBreakdownContainer s"
  "thisErrorContainer (setResultsDisplay v s) = thisErrorContainer s"
  "calc_timers (setResultsDisplay v s) = calc_timers s"
  "dom_slots (setResultsDisplay v s) = dom_slots s"
  "dom_amount (setResultsDisplay v s) = dom_amount s"
  "dom_error (setResultsDisplay v s) = dom_error s"
  "dom_breakdown (setResultsDisplay v s) = dom_breakdown s"
  by (simp_all add: setResultsDisplay_def this_defs)

lemma setLoadingDisplay_keeps [simp]:
  "thisAmountInput (setLoadingDisplay v s) = thisAmountInput s"
  "thisModal (setLoadingDisplay v s) = thisModal s"
  "thisResultsContainer (setLoadingDisplay v s) = thisResultsContainer s"
  "(thisLoadingContainer (setLoadingDisplay v s) = None) = (thisLoadingContainer s = None)"
  "thisBreakdownContainer (setLoadingDisplay v s) = thisBreakdownContainer s"
  "thisErrorContainer (setLoadingDisplay v s) = thisErrorContainer s"
  "calc_timers (setLoadingDisplay v s) = calc_timers s"
  "dom_slots (setLoadingDisplay v s) = dom_slots s"
  "dom_amount (setLoadingDisplay v s) = dom_amount s"
  "dom_error (setLoadingDisplay v s) = dom_error s"
  "dom_results (setLoadingDisplay v s) = dom_results s"
  "dom_breakdown (setLoadingDisplay v s) = dom_breakdown s"
  by (simp_all add: setLoadingDisplay_def this_defs)

lemma setBreakdownDisplay_keeps [simp]:
  "thisAmountInput (setBreakdownDisplay v s) = thisAmountInput s"
  "thisModal (setBreakdownDisplay v s) = thisModal s"
  "thisResultsContainer (setBreakdownDisplay v s) = thisResultsContainer s"
  "thisLoadingContainer (setBreakdownDisplay v s) = thisLoadingContainer s"
  "(thisBreakdownContainer (setBreakdownDisplay v s) = None) = (thisBreakdownContainer s = None)"
  "thisErrorContainer (setBreakdownDisplay v s) = thisErrorContainer s"
  "calc_timers (setBreakdownDisplay v s) = calc_timers s"
  "dom_slots (setBreakdownDisplay v s) = dom_slots s"
  "dom_amount (setBreakdownDisplay v s) = dom_amount s"
  "dom_error (setBreakdownDisplay v s) = dom_error s"
  "dom_results (setBreakdownDisplay v s) = dom_results s"
  by (simp_all add: setBreakdownDisplay_def this_defs)

lemma setErrorDisplay_keeps [simp]:
  "thisAmountInput (setErrorDisplay v s) = thisAmountInput s"
  "thisModal (setErrorDisplay v s) = thisModal s"
  "thisResultsContainer (setErrorDisplay v s) = thisResultsContainer s"
  "thisLoadingContainer (setErrorDisplay v s) = thisLoadingContainer s"
  "thisBreakdownContainer (setErrorDisplay v s) = thisBreakdownContainer s"
  "thisErrorContainer (setErrorDisplay v s) =
     map_option (\<lambda>e. e\<lparr>error_display := v\<rparr>) (thisErrorContainer s)"
  "calc_timers (setErrorDisplay v s) = calc_timers s"
  "dom_slots (setErrorDisplay v s) = dom_slots s"
  "dom_amount (setErrorDisplay v s) = dom_amount s"
  "dom_results (setErrorDisplay v s) = dom_results s"
  "dom_breakdown (setErrorDisplay v s) = dom_breakdown s"
  by (simp_all add: setErrorDisplay_def this_defs split: option.splits)

lemma set_display_values:
  "thisResultsContainer s \<noteq> None \<Longrightarrow> dom_results (setResultsDisplay v s) = Some v"
  "thisBreakdownContainer s \<noteq> None \<Longrightarrow> dom_breakdown (setBreakdownDisplay v s) = Some v"
  "thisErrorContainer s = Some e \<Longrightarrow>
     dom_error (setErrorDisplay v s) = Some (e\<lparr>error_display := v\<rparr>)"
  by (simp_all add: setResultsDisplay_def setBreakdownDisplay_def setErrorDisplay_def)

lemma hideAllResults_keeps [simp]:
  "thisAmountInput (hideAllResults s) = thisAmountInput s"
  "thisModal (hideAllResults s) = thisModal s"
  "(thisResultsContainer (hideAllResults s) = None) = (thisResultsContainer s = None)"
  "(thisLoadingContainer (hideAllResults s) = None) = (thisLoadingContainer s = None)"
  "(thisBreakdownContainer (hideAllResults s) = None) = (thisBreakdownContainer s = None)"
  "(thisErrorContainer (hideAllResults s) = None) = (thisErrorContainer s = None)"
  "calc_timers (hideAllResults s) = calc_timers s"
  "dom_slots (hideAllResults s) = dom_slots s"
  "dom_amount (hideAllResults s) = dom_amount s"
  by (simp_all add: hideAllResults_def)

lemma showError_keeps [simp]:
  "calc_timers (showError msg s) = calc_timers s"
  "dom_slots (showError msg s) = dom_slots s"
  "dom_amount (showError msg s) = dom_amount s"
  by (simp_all add: showError_def Let_def split: option.splits)


lemma thisErrorContainer_text:
  "thisErrorContainer (s\<lparr>dom_error := Some x\<rparr>) = (if errorContainer s then Some x else None)"
  "thisResultsContainer (s\<lparr>dom_error := Some x\<rparr>) = thisResultsContainer s"
  by (simp_all add: this_defs)

lemma showError_visible:
  assumes "thisResultsContainer s \<noteq> None" "thisErrorContainer s \<noteq> None"
  shows "map_option error_text (dom_error (showError msg s)) = Some msg"
    and "map_option error_display (dom_error (showError msg s)) = Some ''block''"
    and "dom_results (showError msg s) = Some ''block''"
proof -
  let ?s1 = "hideAllResults s"
  obtain e where e: "thisErrorContainer ?s1 = Some e" using assms(2) by fastforce
  have r: "thisResultsContainer ?s1 \<noteq> None" using assms(1) by simp
  let ?s2 = "?s1\<lparr>dom_error := Some (e\<lparr>error_text := msg\<rparr>)\<rparr>"
  have ec: "errorContainer ?s1" using e by (simp add: thisErrorContainer_def split: if_splits)
  have r2: "thisResultsContainer ?s2 \<noteq> None" using r by (simp add: thisErrorContainer_text)
  have e2: "thisErrorContainer (setResultsDisplay ''block'' ?s2) = Some (e\<lparr>error_text := msg\<rparr>)"
    using ec by (simp add: thisErrorContainer_text)
  have se: "showError msg s = setErrorDisplay ''block'' (setResultsDisplay ''block'' ?s2)"
    using e r by (simp add: showError_def Let_def)
  show "map_option error_text (dom_error (showError msg s)) = Some msg"
    and "map_option error_display (dom_error (showError msg s)) = Some ''block''"
    unfolding se by (simp_all add: set_display_values(3) [OF e2])
  show "dom_results (showError msg s) = Some ''block''"
    unfolding se using r2 by (simp add: set_display_values(1))
qed

lemma showLoading_keeps [simp]:
  "thisAmountInput (showLoading s) = thisAmountInput s"
  "thisModal (showLoading s) = thisModal s"
  "(thisResultsContainer (showLoading s) = None) = (thisResultsContainer s = None)"
  "(thisBreakdownContainer (showLoading s) = None) = (thisBreakdownContainer s = None)"
  "calc_timers (showLoading s) = calc_timers s"
  "dom_slots (showLoading s) = dom_slots s"
  "dom_amount (showLoading s) = dom_amount s"
  by (simp_all add: showLoading_def)

lemma setTextContent_keeps [simp]:
  "thisAmountInput (setTextContent sel v s) = thisAmountInput s"
  "thisModal (setTextContent sel v s) = thisModal s"
  "thisResultsContainer (setTextContent sel v s) = thisResultsContainer s"
  "thisLoadingContainer (setTextContent sel v s) = thisLoadingContainer s"
  "thisBreakdownContainer (setTextContent sel v s) = thisBreakdownContainer s"
  "thisErrorContainer (setTextContent sel v s) = thisErrorContainer s"
  "calc_timers (setTextContent sel v s) = calc_timers s"
  "dom_amount (setTextContent sel v s) = dom_amount s"
  by (simp_all add: setTextContent_def this_defs split: option.splits)

lemma setTextContent_slots:
  "dom_slots (setTextContent sel v s) sel = map_option (\<lambda>_. v) (dom_slots s sel)"
  "sel' \<noteq> sel \<Longrightarrow> dom_slots (setTextContent sel v s) sel' = dom_slots s sel'"
  by (simp_all add: setTextContent_def split: option.splits)

lemma updateElement_bound:
  "thisModal s \<noteq> None \<Longrightarrow> updateElement sel v s = Inr (setTextContent sel v s)"
  by (auto simp add: updateElement_def)

lemma andThen_Inr [simp]: "andThen (Inr s) f = f s"
  by (simp add: andThen_def)

lemma fillSlots_keeps [simp]:
  "thisAmountInput (fillSlots r s) = thisAmountInput s"
  "thisModal (fillSlots r s) = thisModal s"
  "thisResultsContainer (fillSlots r s) = thisResultsContainer s"
  "thisBreakdownContainer (fillSlots r s) = thisBreakdownContainer s"
  "calc_timers (fillSlots r s) = calc_timers s"
  "dom_amount (fillSlots r s) = dom_amount s"
  by (simp_all add: fillSlots_def)

lemma fillSlots_slots:
  "dom_slots (fillSlots r s) ''#weekly-payment'' =
     map_option (\<lambda>_. weekly_amount r) (dom_slots s ''#weekly-payment'')"
  "dom_slots (fillSlots r s) ''#advance-payment'' =
     map_option (\<lambda>_. upfront_costs_breakdown_advance_payment r) (dom_slots s ''#advance-payment'')"
  "dom_slots (fillSlots r s) ''#security-bond'' =
     map_option (\<lambda>_. upfront_costs_breakdown_bond r) (dom_slots s ''#security-bond'')"
  "dom_slots (fillSlots r s) ''#total-upfront'' =
     map_option (\<lambda>_. upfront_costs_total r) (dom_slots s ''#total-upfront'')"
  "dom_slots (fillSlots r s) ''#total-rent'' =
     map_option (\<lambda>_. totals_rent_after_12_months r) (dom_slots s ''#total-rent'')"
  "dom_slots (fillSlots r s) ''#out-of-pocket'' =
     map_option (\<lambda>_. totals_out_of_pocket r) (dom_slots s ''#out-of-pocket'')"
  by (simp_all add: fillSlots_def setTextContent_slots)

lemma showResults_bound:
  assumes "thisModal s \<noteq> None" "thisResultsContainer s \<noteq> None"
    "thisBreakdownContainer s \<noteq> None"
  shows "showResults r s =
           Inr (setBreakdownDisplay ''block'' (setResultsDisplay ''block''
                  (fillSlots r (hideAllResults s))))"
proof -
  have a: "(thisModal s = None) = False" "(thisResultsContainer s = None) = False"
    "(thisBreakdownContainer s = None) = False"
    using assms by simp_all
  have m: "thisModal t \<noteq> None" if "thisModal t = thisModal s" for t
    using that assms(1) by simp
  show ?thesis
    by (simp add: showResults_def Let_def a fillSlots_def updateElement_bound m)
qed

lemma this_timers [simp]:
  "thisAmountInput (s\<lparr>calc_timers := t\<rparr>) = thisAmountInput s"
  "thisModal (s\<lparr>calc_timers := t\<rparr>) = thisModal s"
  "thisResultsContainer (s\<lparr>calc_timers := t\<rparr>) = thisResultsContainer s"
  "thisLoadingContainer (s\<lparr>calc_timers := t\<rparr>) = thisLoadingContainer s"
  "thisBreakdownContainer (s\<lparr>calc_timers := t\<rparr>) = thisBreakdownContainer s"
  "thisErrorContainer (s\<lparr>calc_timers := t\<rparr>) = thisErrorContainer s"
  by (simp_all add: this_defs)

lemma calcFire_last:
  "calcFire (length (calc_timers s)) (calcSetTimeout (ShowResultsAfterDelay r) d s) =
     showResultsAfterDelay r s"
  by (simp add: calcFire_def calcSetTimeout_def Let_def)

lemma shown_results:
  assumes "thisModal s \<noteq> None" "thisResultsContainer s \<noteq> None"
    "thisBreakdownContainer s \<noteq> None"
  shows "showResultsAfterDelay r s =
           setBreakdownDisplay ''block'' (setResultsDisplay ''block''
                  (fillSlots r (hideAllResults s)))"
  by (simp add: showResultsAfterDelay_def showResults_bound [OF assms])

lemma rejected_499: "rejected (Num 499)"
  by (simp add: rejected_def)

lemma calculatePayments_rejected:
  assumes "thisAmountInput s = Some v" "rejected (parseFloat h v)"
  shows "calculatePayments h s = showError ''Please enter an amount of $500 or more.'' s"
  using assms by (simp add: calculatePayments_def Let_def)

lemma calculatePayments_accepted:
  assumes "thisAmountInput s = Some v" "\<not> rejected (parseFloat h v)"
  shows "calculatePayments h s =
           calcSetTimeout (ShowResultsAfterDelay (calculateStaticPayments h (parseFloat h v)))
             1500 (showLoading s)"
  using assms by (simp add: calculatePayments_def Let_def)

lemma plain_results_1000:
  "calculateStaticPayments plain_host (Num 1000) =
     \<lparr>finance_amount = ''$1,000.00'',
      weekly_amount = ''$19.00'',
      upfront_costs_total = ''$119.00'',
      upfront_costs_breakdown_advance_payment = ''$19.00'',
      upfront_costs_breakdown_bond = ''$100.00'',
      totals_rent_after_12_months = ''$988.00'',
      totals_out_of_pocket = ''$988.00''\<rparr>"
  by (simp add: calculateStaticPayments_def Let_def weeklyPayment_1000 securityBond_1000
      totalUpfront_1000 totalRent_1000 formatCurrency_def plain_host_def plain_strings)

section \<open>The claims about the accordion\<close>

text \<open>
  Claim C7. On a narrow viewport (\<open>isMobileView\<close>), for any list of blocks and any
  block \<open>i\<close> of it, after \<open>handleToggle\<close> has run for a control inside block \<open>i\<close>
  the state attribute of block \<open>i\<close> is \<open>expanded\<close> and that of every other block is
  \<open>collapsed\<close>, so exactly block \<open>i\<close> is expanded. Running the handler for the same
  block a second time leaves the same states, again with exactly block \<open>i\<close> expanded.
\<close>

theorem accordion_exclusive:
  assumes "isMobileView c" and "i < length (mobileBlocks c)"
  shows "(let c1 = handleToggle (Some i) c; c2 = handleToggle (Some i) c1 in
           length (mobileBlocks c1) = length (mobileBlocks c)
         \<and> (\<forall>j < length (mobileBlocks c).
               data_mobile_state (mobileBlocks c1 ! j) =
                 Some (if j = i then ''expanded'' else ''collapsed''))
         \<and> expandedBlocks c1 = [i]
         \<and> states c2 = states c1
         \<and> expandedBlocks c2 = [i])"
proof -
  define c1 where "c1 = handleToggle (Some i) c"
  define c2 where "c2 = handleToggle (Some i) c1"
  let ?n = "length (mobileBlocks c)"
  have s1: "states c1 = toggled i ?n" and l1: "length (mobileBlocks c1) = ?n"
    and m1: "isMobileView c1"
    unfolding c1_def using handleToggle_effect [OF assms(1)] by simp_all
  have s2: "states c2 = toggled i ?n" and l2: "length (mobileBlocks c2) = ?n"
    unfolding c2_def using handleToggle_effect [OF m1] l1 by simp_all
  have per: "\<forall>j < ?n. data_mobile_state (mobileBlocks c1 ! j) =
                 Some (if j = i then ''expanded'' else ''collapsed'')"
  proof (intro allI impI)
    fix j assume j: "j < ?n"
    have "data_mobile_state (mobileBlocks c1 ! j) = states c1 ! j"
      using j l1 by (simp add: states_def)
    also have "\<dots> = Some (if j = i then ''expanded'' else ''collapsed'')"
      using j by (simp add: s1 toggled_def)
    finally show "data_mobile_state (mobileBlocks c1 ! j) =
                 Some (if j = i then ''expanded'' else ''collapsed'')" .
  qed
  have e1: "expandedBlocks c1 = [i]" using expanded_toggled [of c1 i] s1 l1 assms(2) by simp
  have e2: "expandedBlocks c2 = [i]" using expanded_toggled [of c2 i] s2 l2 assms(2) by simp
  show ?thesis
    unfolding Let_def c1_def [symmetric] c2_def [symmetric]
    using l1 per e1 e2 s1 s2 by simp
qed

theorem accordion_exclusive_witness:
  "isMobileView two_blocks \<and> 1 < length (mobileBlocks two_blocks)
   \<and> expandedBlocks (handleToggle (Some 1) two_blocks) = [1]
   \<and> expandedBlocks (handleToggle (Some 1) (handleToggle (Some 1) two_blocks)) = [1]"
  using accordion_exclusive [of two_blocks 1]
  by (simp add: two_blocks_def isMobileView_def Let_def)

text \<open>
  Claim C8, as the code has it. On a narrow viewport a click on a control of block \<open>i\<close>
  dispatches one event for every block of the accordion, in document order, whether or
  not the block's state changed: \<open>comparison:expanded\<close> for block \<open>i\<close> and
  \<open>comparison:collapsed\<close> for every other block, each carrying the block and the
  block's side tag.
\<close>

theorem toggle_notifies_every_block:
  assumes "isMobileView c"
  shows "dispatched (handleToggle (Some i) c) =
           dispatched c @ map (toggleEvent i c) [0..<length (mobileBlocks c)]"
  using handleToggle_effect(5) [OF assms] .

theorem toggle_notifies_every_block_witness:
  "isMobileView two_blocks \<and>
   dispatched (handleToggle (Some 1) two_blocks) =
     [\<lparr>event_name = ''comparison:collapsed'', detail_block = 0, detail_side = Some ''left''\<rparr>,
      \<lparr>event_name = ''comparison:expanded'', detail_block = 1, detail_side = Some ''right''\<rparr>]"
  using toggle_notifies_every_block [of two_blocks 1]
  by (simp add: two_blocks_def isMobileView_def toggleEvent_def upt_rec)

text \<open>
  The claim C8 as the specification states it fails: clicking the control of the block
  that is already expanded, with the other block already collapsed, changes no state,
  and still one event is dispatched for each of the two blocks.
\<close>

theorem unchanged_blocks_notified:
  "states (handleToggle (Some 0) two_blocks) = states two_blocks
   \<and> dispatched two_blocks = []
   \<and> dispatched (handleToggle (Some 0) two_blocks) =
       [\<lparr>event_name = ''comparison:expanded'', detail_block = 0, detail_side = Some ''left''\<rparr>,
        \<lparr>event_name = ''comparison:collapsed'', detail_block = 1, detail_side = Some ''right''\<rparr>]"
  by (simp add: two_blocks_toggle states_def) (simp add: two_blocks_def)

section \<open>The claims about the alphabet filter\<close>




text \<open>
  Claim C5, as the code has it. A click on the button of letter \<open>L\<close> while the current
  filter already is \<open>L\<close> changes nothing, and clicking the same button twice in
  succession gives the state the first click gave: the second click starts no animation,
  pushes no history entry and leaves the cards and the current filter alone. A second
  request through \<open>setFilter\<close> (that is \<open>filterByLetter\<close>) keeps the current filter \<open>L\<close>
  and the set of matching cards, but it is not a no-op: unless a transition is in
  progress it applies the filter again, pushing one more history entry for a letter
  other than \<open>all\<close> and, with animation enabled, starting a new animation.
\<close>

theorem same_letter_again:
  "(currentFilter s = btn_letter (alphabetButtons s ! i) \<longrightarrow> handleAlphabetClick i s = s)
   \<and> (i < length (alphabetButtons s) \<longrightarrow>
        handleAlphabetClick i (handleAlphabetClick i s) = handleAlphabetClick i s)
   \<and> (currentFilter s = letter \<longrightarrow>
        currentFilter (setFilter letter s) = letter
        \<and> cardsToShow letter (setFilter letter s) = cardsToShow letter s)
   \<and> (\<not> (isAnimating s \<and> enableAnimation s) \<and> letter \<noteq> [] \<and> letter \<noteq> ''all'' \<longrightarrow>
        pushed (setFilter letter s) = pushed s @ [''#letter-'' @ letter]
        \<and> (enableAnimation s \<longrightarrow>
             isAnimating (setFilter letter s)
             \<and> pendingAnimations (setFilter letter s) = pendingAnimations s + 1))"
proof (intro conjI impI)
  assume "currentFilter s = btn_letter (alphabetButtons s ! i)"
  then show "handleAlphabetClick i s = s" by (rule click_same_letter)
next
  assume "i < length (alphabetButtons s)"
  then show "handleAlphabetClick i (handleAlphabetClick i s) = handleAlphabetClick i s"
    by (rule click_twice)
next
  assume c: "currentFilter s = letter"
  show "currentFilter (setFilter letter s) = letter"
  proof (cases "isAnimating s \<and> enableAnimation s")
    case True
    then show ?thesis using c by (simp add: setFilter_def filterByLetter_def)
  next
    case False
    then show ?thesis by (simp add: setFilter_def currentFilter_filterByLetter)
  qed
  show "cardsToShow letter (setFilter letter s) = cardsToShow letter s"
    by (rule cardsToShow_letters) (simp add: setFilter_def)
next
  assume a: "\<not> (isAnimating s \<and> enableAnimation s) \<and> letter \<noteq> [] \<and> letter \<noteq> ''all''"
  then show "pushed (setFilter letter s) = pushed s @ [''#letter-'' @ letter]"
    by (simp add: setFilter_def pushed_filterByLetter)
  assume e: "enableAnimation s"
  then have na: "\<not> isAnimating s" using a by simp
  show "isAnimating (setFilter letter s)"
    using e na by (simp add: setFilter_def filterByLetter_def Let_def)
  have "timers (setFilter letter s) =
          (timers s @ [(animationDuration s / 2,
             ShowCards (cardsToShow letter (updateActiveButton letter (s\<lparr>currentFilter := letter\<rparr>))))])
          @ [(1000, RemoveAnnouncement (created (updateURL letter
               (animateFilter letter (updateActiveButton letter (s\<lparr>currentFilter := letter\<rparr>))))))]"
    using e na by (simp add: setFilter_def filterByLetter_def Let_def updateActiveButton_def)
  then show "pendingAnimations (setFilter letter s) = pendingAnimations s + 1"
    unfolding pendingAnimations_def by (simp add: isAnimationCallback_def)
qed

theorem same_letter_again_witness:
  "currentFilter (run [SetFilter ''B'', Fire 0, Fire 1, Fire 0] brand_page) = ''B''
   \<and> btn_letter (alphabetButtons (run [SetFilter ''B'', Fire 0, Fire 1, Fire 0] brand_page) ! 2) = ''B''
   \<and> handleAlphabetClick 2 (run [SetFilter ''B'', Fire 0, Fire 1, Fire 0] brand_page)
       = run [SetFilter ''B'', Fire 0, Fire 1, Fire 0] brand_page
   \<and> 1 < length (alphabetButtons brand_page)
   \<and> handleAlphabetClick 1 (handleAlphabetClick 1 brand_page) = handleAlphabetClick 1 brand_page
   \<and> currentFilter (setFilter ''B'' (run [SetFilter ''B'', Fire 0, Fire 1, Fire 0] brand_page)) = ''B''
   \<and> \<not> isAnimating (run [SetFilter ''B'', Fire 0, Fire 1, Fire 0] brand_page)
   \<and> enableAnimation (run [SetFilter ''B'', Fire 0, Fire 1, Fire 0] brand_page)
   \<and> isAnimating (setFilter ''B'' (run [SetFilter ''B'', Fire 0, Fire 1, Fire 0] brand_page))
   \<and> pushed (setFilter ''B'' (run [SetFilter ''B'', Fire 0, Fire 1, Fire 0] brand_page))
       = pushed (run [SetFilter ''B'', Fire 0, Fire 1, Fire 0] brand_page) @ [''#letter-B'']"
proof -
  let ?s = "run [SetFilter ''B'', Fire 0, Fire 1, Fire 0] brand_page"
  have c: "currentFilter ?s = ''B''" by code_simp
  have b: "btn_letter (alphabetButtons ?s ! 2) = ''B''" by code_simp
  have n: "\<not> isAnimating ?s" "enableAnimation ?s" by code_simp+
  have l: "1 < length (alphabetButtons brand_page)" by code_simp
  show ?thesis
    using same_letter_again [of ?s 2 "''B''"] same_letter_again [of brand_page 1 "''B''"] c b n l
    by simp
qed

text \<open>
  The claim C5 as the specification states it fails for the public entry point: with
  \<open>B\<close> selected, the animation finished and one history entry pushed, \<open>setFilter\<close> for
  \<open>B\<close> again starts an animation and pushes a second, identical history entry.
\<close>

theorem setFilter_same_letter_runs_again:
  "currentFilter (run [SetFilter ''B'', Fire 0, Fire 1, Fire 0] brand_page) = ''B''
   \<and> \<not> isAnimating (run [SetFilter ''B'', Fire 0, Fire 1, Fire 0] brand_page)
   \<and> timers (run [SetFilter ''B'', Fire 0, Fire 1, Fire 0] brand_page) = []
   \<and> pushed (run [SetFilter ''B'', Fire 0, Fire 1, Fire 0] brand_page) = [''#letter-B'']
   \<and> isAnimating (setFilter ''B'' (run [SetFilter ''B'', Fire 0, Fire 1, Fire 0] brand_page))
   \<and> pendingAnimations (setFilter ''B'' (run [SetFilter ''B'', Fire 0, Fire 1, Fire 0] brand_page)) = 1
   \<and> pushed (setFilter ''B'' (run [SetFilter ''B'', Fire 0, Fire 1, Fire 0] brand_page))
       = [''#letter-B'', ''#letter-B'']"
  by code_simp

text \<open>
  Claim C6, as the code has it. For a letter \<open>L\<close> other than \<open>all\<close> that no card
  carries, \<open>init\<close> (through \<open>updateCounts\<close>) disables the button of \<open>L\<close>, the button
  stays disabled whatever happens afterwards, and a click or key press on it changes
  nothing, so \<open>L\<close> never becomes the active filter through its button. A direct call
  of \<open>setFilter\<close> or \<open>filterByLetter\<close> is not gated by this: unless a transition is
  in progress (with animation enabled), the requested letter becomes the current filter.
\<close>

theorem disabled_letters_not_clickable:
  "(constructed s \<and> i < length (alphabetButtons s)
      \<and> btn_letter (alphabetButtons s ! i) \<noteq> ''all''
      \<and> \<not> list_ex (\<lambda>c. card_letter c = Some (btn_letter (alphabetButtons s ! i))) (brandCards s)
    \<longrightarrow> disabled (alphabetButtons (run es s) ! i)
        \<and> step (Click i) (run es s) = run es s
        \<and> step (Keydown key i) (run es s) = run es s)
   \<and> (\<not> (isAnimating s \<and> enableAnimation s)
    \<longrightarrow> getCurrentFilter (setFilter letter s) = letter
        \<and> getCurrentFilter (filterByLetter letter updateHistory s) = letter)"
proof (intro conjI impI)
  assume a: "constructed s \<and> i < length (alphabetButtons s)
      \<and> btn_letter (alphabetButtons s ! i) \<noteq> ''all''
      \<and> \<not> list_ex (\<lambda>c. card_letter c = Some (btn_letter (alphabetButtons s ! i))) (brandCards s)"
  let ?r = "run es s"
  have len: "length (alphabetButtons ?r) = length (alphabetButtons s)"
  proof -
    have "length (buttonView ?r) = length (buttonView (updateCounts s))"
      by (simp add: view_run)
    then show ?thesis by (simp add: buttonView_def updateCounts_def)
  qed
  have d: "snd (buttonView ?r ! i)"
    using a updateCounts_disables [of i s] by (simp add: view_run)
  then show dis: "disabled (alphabetButtons ?r ! i)"
    using a len by (simp add: buttonView_def)
  have c: "handleAlphabetClick i ?r = ?r"
    using click_disabled [of i ?r] d a len by simp
  show "step (Click i) ?r = ?r" using c a len by (simp add: step_def)
  show "step (Keydown key i) ?r = ?r" using c a len by (simp add: step_def handleAlphabetKeydown_def)
next
  assume "\<not> (isAnimating s \<and> enableAnimation s)"
  then show "getCurrentFilter (setFilter letter s) = letter"
    and "getCurrentFilter (filterByLetter letter updateHistory s) = letter"
    by (simp_all add: getCurrentFilter_def setFilter_def currentFilter_filterByLetter)
qed

theorem disabled_letters_not_clickable_witness:
  "constructed brand_page \<and> 3 < length (alphabetButtons brand_page)
   \<and> btn_letter (alphabetButtons brand_page ! 3) = ''Z''
   \<and> \<not> list_ex (\<lambda>c. card_letter c = Some ''Z'') (brandCards brand_page)
   \<and> disabled (alphabetButtons (run [SetFilter ''A'', Click 3] brand_page) ! 3)
   \<and> step (Click 3) (run [SetFilter ''A'', Click 3] brand_page)
       = run [SetFilter ''A'', Click 3] brand_page
   \<and> \<not> isAnimating brand_page
   \<and> getCurrentFilter (setFilter ''Z'' brand_page) = ''Z''"
proof -
  have h: "constructed brand_page" "3 < length (alphabetButtons brand_page)"
    "btn_letter (alphabetButtons brand_page ! 3) = ''Z''"
    "\<not> list_ex (\<lambda>c. card_letter c = Some ''Z'') (brandCards brand_page)"
    "\<not> isAnimating brand_page"
    by code_simp+
  show ?thesis
    using disabled_letters_not_clickable
      [of brand_page 3 "[SetFilter ''A'', Click 3]" "''Enter''" "''Z''" True] h
    by simp
qed

text \<open>
  The claim C6 as the specification states it fails for direct invocation: on the
  concrete page no card carries \<open>Z\<close> and the button of \<open>Z\<close> is disabled after \<open>init\<close>,
  yet \<open>setFilter\<close> for \<open>Z\<close> makes \<open>Z\<close> the current filter.
\<close>

theorem setFilter_selects_disabled_letter:
  "btn_letter (alphabetButtons (run [] brand_page) ! 3) = ''Z''
   \<and> disabled (alphabetButtons (run [] brand_page) ! 3)
   \<and> cardsToShow ''Z'' (run [] brand_page) = []
   \<and> getCurrentFilter (run [] brand_page) = ''all''
   \<and> getCurrentFilter (setFilter ''Z'' (run [] brand_page)) = ''Z''"
  by code_simp

text \<open>
  Claim C9, as the code has it. \<open>animateFilter\<close> sets the transition flag, gives the
  hide class to every card that does not match the letter (taking its show class away)
  and schedules its first callback after half the configured duration. When that timer
  fires, every matching card gets the show class (and loses the hide class), the
  empty-state panel, if the page has one, is shown exactly when no card matches, and
  the second callback is scheduled after the full configured duration. When the second
  timer fires, the transition flag is cleared and both transient classes are removed
  from every card.
\<close>

theorem animation_steps:
  "(let s1 = animateFilter letter s;
        k = length (timers s);
        s2 = fire k s1;
        s3 = fire k s2
    in isAnimating s1
     \<and> timers s1 = timers s @ [(animationDuration s / 2, ShowCards (cardsToShow letter s))]
     \<and> brandCards s1 =
         map (\<lambda>c. if cardMatchesFilter c letter then c else hideCard c) (brandCards s)
     \<and> isAnimating s2
     \<and> timers s2 = timers s @ [(animationDuration s, AnimationComplete)]
     \<and> brandCards s2 =
         map (\<lambda>c. if cardMatchesFilter c letter then showCard c else hideCard c) (brandCards s)
     \<and> emptyState s2 =
         (case emptyState s of
            None \<Rightarrow> None
          | Some _ \<Rightarrow> Some (Some (if cardsToShow letter s = [] then ''block'' else ''none'')))
     \<and> \<not> isAnimating s3
     \<and> timers s3 = timers s
     \<and> brandCards s3 = map idleCard (brandCards s))"
proof -
  define s1 where "s1 = animateFilter letter s"
  define k where "k = length (timers s)"
  define s2 where "s2 = fire k s1"
  define s3 where "s3 = fire k s2"
  let ?show = "cardsToShow letter s"
  have a1: "isAnimating s1" by (simp add: s1_def)
  have t1: "timers s1 = timers s @ [(animationDuration s / 2, ShowCards ?show)]"
    by (simp add: s1_def)
  have c1: "brandCards s1 = map (\<lambda>c. if cardMatchesFilter c letter then c else hideCard c) (brandCards s)"
    by (simp add: s1_def cards_animateFilter)
  have d1: "animationDuration s1 = animationDuration s" "emptyState s1 = emptyState s"
    by (simp_all add: s1_def animateFilter_def Let_def setTimeout_def)
  define s1' where "s1' = s1\<lparr>timers := timers s\<rparr>"
  have f2: "s2 = showCardsCallback ?show s1'"
    by (simp add: s2_def fire_def t1 k_def runCallback_def s1'_def)
  have len: "length (brandCards s1') = length (brandCards s)"
    by (simp add: s1'_def c1)
  have a2: "isAnimating s2"
    using a1 by (simp add: f2 showCardsCallback_def Let_def setTimeout_def s1'_def)
  have t2: "timers s2 = timers s @ [(animationDuration s, AnimationComplete)]"
    using d1 by (simp add: f2 showCardsCallback_def Let_def setTimeout_def s1'_def)
  have "brandCards s2 =
          map2 (\<lambda>x y. if cardMatchesFilter x letter then showCard y else y)
            (brandCards s) (brandCards s1')"
    unfolding f2 by (rule cards_showCardsCallback [OF len])
  also have "brandCards s1' = map (\<lambda>c. if cardMatchesFilter c letter then c else hideCard c) (brandCards s)"
    by (simp add: s1'_def c1)
  finally have c2: "brandCards s2 =
      map (\<lambda>c. if cardMatchesFilter c letter then showCard c else hideCard c) (brandCards s)"
    by (simp add: map2_same cong: if_cong)
  have e2: "emptyState s2 =
         (case emptyState s of
            None \<Rightarrow> None
          | Some _ \<Rightarrow> Some (Some (if ?show = [] then ''block'' else ''none'')))"
    using d1 by (simp add: f2 showCardsCallback_def Let_def setTimeout_def s1'_def
        updateEmptyState_def split: option.splits)
  have f3: "s3 = animationCompleteCallback (s2\<lparr>timers := timers s\<rparr>)"
    by (simp add: s3_def fire_def t2 k_def runCallback_def)
  have a3: "\<not> isAnimating s3" and t3: "timers s3 = timers s"
    by (simp_all add: f3 animationCompleteCallback_def cleanupFilterClasses_def)
  have c3: "brandCards s3 = map idleCard (brandCards s)"
    by (simp add: f3 animationCompleteCallback_def cleanupFilterClasses_def c2
        idleCard_def showCard_def hideCard_def)
  show ?thesis
    unfolding Let_def s1_def [symmetric] k_def [symmetric] s2_def [symmetric] s3_def [symmetric]
    using a1 t1 c1 a2 t2 c2 e2 a3 t3 c3 by simp
qed

theorem animation_steps_witness:
  "isAnimating (animateFilter ''A'' brand_page)
   \<and> timers (fire 0 (animateFilter ''A'' brand_page)) = [(300, AnimationComplete)]
   \<and> \<not> isAnimating (fire 0 (fire 0 (animateFilter ''A'' brand_page)))
   \<and> timers (fire 0 (fire 0 (animateFilter ''A'' brand_page))) = []"
proof -
  have h: "timers brand_page = []" "animationDuration brand_page = 300"
    by (simp_all add: brand_page_def)
  show ?thesis using animation_steps [of "''A''" brand_page] h by (simp add: Let_def)
qed

text \<open>
  The claim C9 as the specification states it fails: the two delays are not equal. With
  the default duration of 300 the first callback is scheduled after 150 and the second
  after 300.
\<close>

theorem animation_delays_differ:
  "animationDuration brand_page = 300
   \<and> timers (animateFilter ''A'' brand_page) = [(150, ShowCards [0])]
   \<and> timers (fire 0 (animateFilter ''A'' brand_page)) = [(300, AnimationComplete)]"
  by code_simp

text \<open>
  Claim C4, as the code has it. \<open>getLetterFromURL\<close> gives \<open>all\<close> for every fragment
  that does not start with \<open>#letter-\<close>, the empty (absent) fragment included; for a
  fragment that starts with \<open>#letter-\<close> it gives whatever follows that prefix, so the
  fragment made from a letter gives that letter back.
\<close>

theorem getLetterFromURL_decoding:
  "(\<not> prefix ''#letter-'' (location_hash s) \<longrightarrow> getLetterFromURL s = ''all'')
   \<and> (location_hash s = ''#letter-'' @ letter \<longrightarrow> getLetterFromURL s = letter)"
  by (auto simp add: getLetterFromURL_def Let_def)

theorem getLetterFromURL_decoding_witness:
  "getLetterFromURL (brand_page\<lparr>location_hash := []\<rparr>) = ''all''
   \<and> getLetterFromURL (brand_page\<lparr>location_hash := ''#top''\<rparr>) = ''all''
   \<and> getLetterFromURL (brand_page\<lparr>location_hash := ''#letter-B''\<rparr>) = ''B''"
  using getLetterFromURL_decoding [of "brand_page\<lparr>location_hash := []\<rparr>" "''B''"]
    getLetterFromURL_decoding [of "brand_page\<lparr>location_hash := ''#top''\<rparr>" "''B''"]
    getLetterFromURL_decoding [of "brand_page\<lparr>location_hash := ''#letter-B''\<rparr>" "''B''"]
  by simp

text \<open>
  The claim C4 as the specification states it fails: a fragment that starts with
  \<open>#letter-\<close> but does not continue with a single uppercase letter is not decoded to
  \<open>all\<close>.
\<close>

theorem unrecognized_fragment_not_all:
  "getLetterFromURL (brand_page\<lparr>location_hash := ''#letter-foo''\<rparr>) = ''foo''
   \<and> getLetterFromURL (brand_page\<lparr>location_hash := ''#letter-''\<rparr>) = []
   \<and> getLetterFromURL (brand_page\<lparr>location_hash := ''#letter-b''\<rparr>) = ''b''"
  by (simp add: getLetterFromURL_def Let_def)

section \<open>The claims about the calculator\<close>

text \<open>
  Claim C2. For the amount 1000, \<open>calculateStaticPayments\<close> computes, in binary64
  arithmetic, a weekly payment of exactly 19, a security bond of exactly 100, a total
  upfront of 119 (advance payment, equal to the weekly payment, plus bond) and a
  12-month rent total of 988 (weekly payment times 52), and returns each of them passed
  through the AUD currency formatter. For every amount the weekly payment is
  \<open>Math.round(amount * 0.019 * 100) / 100\<close> and the bond is
  \<open>Math.round(amount * 0.1 * 100) / 100\<close>.
\<close>

theorem static_payments:
  "calculateStaticPayments h (Num 1000) =
     \<lparr>finance_amount = formatCurrency h (Num 1000),
      weekly_amount = formatCurrency h (Num 19),
      upfront_costs_total = formatCurrency h (Num 119),
      upfront_costs_breakdown_advance_payment = formatCurrency h (Num 19),
      upfront_costs_breakdown_bond = formatCurrency h (Num 100),
      totals_rent_after_12_months = formatCurrency h (Num 988),
      totals_out_of_pocket = formatCurrency h (Num 988)\<rparr>
   \<and> weekly_amount (calculateStaticPayments h amount) =
       formatCurrency h (js_div (Math_round (js_mul (js_mul amount lit_0_019) (Num 100))) (Num 100))
   \<and> upfront_costs_breakdown_bond (calculateStaticPayments h amount) =
       formatCurrency h (js_div (Math_round (js_mul (js_mul amount lit_0_1) (Num 100))) (Num 100))
   \<and> upfront_costs_breakdown_advance_payment (calculateStaticPayments h amount) =
       weekly_amount (calculateStaticPayments h amount)
   \<and> upfront_costs_total (calculateStaticPayments h amount) =
       formatCurrency h (js_add (weeklyPayment amount) (securityBond amount))
   \<and> totals_rent_after_12_months (calculateStaticPayments h amount) =
       formatCurrency h (js_mul (weeklyPayment amount) (Num 52))
   \<and> totals_out_of_pocket (calculateStaticPayments h amount) =
       totals_rent_after_12_months (calculateStaticPayments h amount)
   \<and> finance_amount (calculateStaticPayments h amount) = formatCurrency h amount"
  by (simp add: calculateStaticPayments_def Let_def weeklyPayment_1000 securityBond_1000
      totalUpfront_1000 totalRent_1000)
    (simp add: weeklyPayment_def securityBond_def)

theorem static_payments_witness:
  "calculateStaticPayments plain_host (Num 1000) =
     \<lparr>finance_amount = ''$1,000.00'',
      weekly_amount = ''$19.00'',
      upfront_costs_total = ''$119.00'',
      upfront_costs_breakdown_advance_payment = ''$19.00'',
      upfront_costs_breakdown_bond = ''$100.00'',
      totals_rent_after_12_months = ''$988.00'',
      totals_out_of_pocket = ''$988.00''\<rparr>"
  using static_payments [of plain_host "Num 1000"]
  by (simp add: formatCurrency_def plain_host_def plain_strings)

text \<open>
  Claim C3. With the amount field bound, \<open>calculatePayments\<close> rejects exactly the
  parsed amounts that are \<open>NaN\<close> (an empty or non-numeric field), zero, or strictly
  below 500, that is exactly those that are not at least 500; 499 is rejected. For a
  rejected amount it does what \<open>showError\<close> does with the validation message, sets no
  timer and writes no result: on a page that has the results and error containers the
  message is visible. For an amount of at least 500 it shows the loading state,
  computes the results and schedules the rest of the function after 1500 ms; when that
  timer fires on a page that has the modal, the results and the breakdown containers,
  the six result elements that exist carry the formatted results and both containers
  are displayed.
\<close>

theorem validation_threshold:
  assumes "thisAmountInput s = Some v"
  shows
   "(rejected (parseFloat h v) \<longleftrightarrow>
       parseFloat h v = NaN \<or> parseFloat h v = Num 0 \<or> js_lt (parseFloat h v) (Num 500))
    \<and> (rejected (parseFloat h v) \<longleftrightarrow> \<not> js_ge (parseFloat h v) (Num 500))
    \<and> rejected (Num 499)
    \<and> (rejected (parseFloat h v) \<longrightarrow>
          calculatePayments h s = showError ''Please enter an amount of $500 or more.'' s
          \<and> calc_timers (calculatePayments h s) = calc_timers s
          \<and> dom_slots (calculatePayments h s) = dom_slots s
          \<and> (thisResultsContainer s \<noteq> None \<and> thisErrorContainer s \<noteq> None \<longrightarrow>
                map_option error_text (dom_error (calculatePayments h s))
                  = Some ''Please enter an amount of $500 or more.''
                \<and> map_option error_display (dom_error (calculatePayments h s)) = Some ''block''
                \<and> dom_results (calculatePayments h s) = Some ''block''))
    \<and> (js_ge (parseFloat h v) (Num 500) \<longrightarrow>
         (let r = calculateStaticPayments h (parseFloat h v);
              s1 = calculatePayments h s;
              s2 = calcFire (length (calc_timers s)) s1
          in s1 = calcSetTimeout (ShowResultsAfterDelay r) 1500 (showLoading s)
           \<and> calc_timers s1 = calc_timers s @ [(1500, ShowResultsAfterDelay r)]
           \<and> (thisModal s \<noteq> None \<and> thisResultsContainer s \<noteq> None
                \<and> thisBreakdownContainer s \<noteq> None \<longrightarrow>
                 dom_results s2 = Some ''block'' \<and> dom_breakdown s2 = Some ''block''
               \<and> calc_timers s2 = calc_timers s
               \<and> dom_slots s2 ''#weekly-payment'' =
                   map_option (\<lambda>_. weekly_amount r) (dom_slots s ''#weekly-payment'')
               \<and> dom_slots s2 ''#advance-payment'' =
                   map_option (\<lambda>_. upfront_costs_breakdown_advance_payment r)
                     (dom_slots s ''#advance-payment'')
               \<and> dom_slots s2 ''#security-bond'' =
                   map_option (\<lambda>_. upfront_costs_breakdown_bond r) (dom_slots s ''#security-bond'')
               \<and> dom_slots s2 ''#total-upfront'' =
                   map_option (\<lambda>_. upfront_costs_total r) (dom_slots s ''#total-upfront'')
               \<and> dom_slots s2 ''#total-rent'' =
                   map_option (\<lambda>_. totals_rent_after_12_months r) (dom_slots s ''#total-rent'')
               \<and> dom_slots s2 ''#out-of-pocket'' =
                   map_option (\<lambda>_. totals_out_of_pocket r) (dom_slots s ''#out-of-pocket''))))"
proof (intro conjI impI)
  show "rejected (parseFloat h v) \<longleftrightarrow>
       parseFloat h v = NaN \<or> parseFloat h v = Num 0 \<or> js_lt (parseFloat h v) (Num 500)"
    by (rule rejected_cases)
  show "rejected (parseFloat h v) \<longleftrightarrow> \<not> js_ge (parseFloat h v) (Num 500)"
    by (rule rejected_iff)
  show "rejected (Num 499)" by (rule rejected_499)
next
  assume r: "rejected (parseFloat h v)"
  note e = calculatePayments_rejected [OF assms r]
  show "calculatePayments h s = showError ''Please enter an amount of $500 or more.'' s"
    by (rule e)
  show "calc_timers (calculatePayments h s) = calc_timers s"
    and "dom_slots (calculatePayments h s) = dom_slots s"
    by (simp_all add: e)
  assume c: "thisResultsContainer s \<noteq> None \<and> thisErrorContainer s \<noteq> None"
  then have c1: "thisResultsContainer s \<noteq> None" and c2: "thisErrorContainer s \<noteq> None"
    by simp_all
  show "map_option error_text (dom_error (calculatePayments h s))
          = Some ''Please enter an amount of $500 or more.''"
    and "map_option error_display (dom_error (calculatePayments h s)) = Some ''block''"
    and "dom_results (calculatePayments h s) = Some ''block''"
    unfolding e by (rule showError_visible [OF c1 c2])+
next
  assume g: "js_ge (parseFloat h v) (Num 500)"
  then have nr: "\<not> rejected (parseFloat h v)" by (simp add: rejected_iff)
  define r where "r = calculateStaticPayments h (parseFloat h v)"
  define s1 where "s1 = calculatePayments h s"
  define s2 where "s2 = calcFire (length (calc_timers s)) s1"
  have e: "s1 = calcSetTimeout (ShowResultsAfterDelay r) 1500 (showLoading s)"
    unfolding s1_def r_def by (rule calculatePayments_accepted [OF assms nr])
  have t1: "calc_timers s1 = calc_timers s @ [(1500, ShowResultsAfterDelay r)]"
    by (simp add: e calcSetTimeout_def)
  have f: "s2 = showResultsAfterDelay r (showLoading s)"
    unfolding s2_def e using calcFire_last [of "showLoading s" r 1500] by simp
  have rest: "dom_results s2 = Some ''block'' \<and> dom_breakdown s2 = Some ''block''
               \<and> calc_timers s2 = calc_timers s
               \<and> dom_slots s2 ''#weekly-payment'' =
                   map_option (\<lambda>_. weekly_amount r) (dom_slots s ''#weekly-payment'')
               \<and> dom_slots s2 ''#advance-payment'' =
                   map_option (\<lambda>_. upfront_costs_breakdown_advance_payment r)
                     (dom_slots s ''#advance-payment'')
               \<and> dom_slots s2 ''#security-bond'' =
                   map_option (\<lambda>_. upfront_costs_breakdown_bond r) (dom_slots s ''#security-bond'')
               \<and> dom_slots s2 ''#total-upfront'' =
                   map_option (\<lambda>_. upfront_costs_total r) (dom_slots s ''#total-upfront'')
               \<and> dom_slots s2 ''#total-rent'' =
                   map_option (\<lambda>_. totals_rent_after_12_months r) (dom_slots s ''#total-rent'')
               \<and> dom_slots s2 ''#out-of-pocket'' =
                   map_option (\<lambda>_. totals_out_of_pocket r) (dom_slots s ''#out-of-pocket'')"
    if p: "thisModal s \<noteq> None \<and> thisResultsContainer s \<noteq> None
                \<and> thisBreakdownContainer s \<noteq> None"
  proof -
    let ?l = "showLoading s"
    have p': "thisModal ?l \<noteq> None" "thisResultsContainer ?l \<noteq> None"
      "thisBreakdownContainer ?l \<noteq> None"
      using p by simp_all
    let ?h = "fillSlots r (hideAllResults ?l)"
    have f2: "s2 = setBreakdownDisplay ''block'' (setResultsDisplay ''block'' ?h)"
      unfolding f by (rule shown_results [OF p'])
    have rh: "thisResultsContainer ?h \<noteq> None" using p' by simp
    have bh: "thisBreakdownContainer (setResultsDisplay ''block'' ?h) \<noteq> None" using p' by simp
    have 1: "dom_results s2 = Some ''block''"
      unfolding f2 using rh by (simp add: set_display_values(1))
    have 2: "dom_breakdown s2 = Some ''block''"
      unfolding f2 using bh by (simp add: set_display_values(2))
    have 3: "calc_timers s2 = calc_timers s" unfolding f2 by simp
    have 4: "dom_slots s2 = dom_slots ?h" unfolding f2 by simp
    have 5: "dom_slots (hideAllResults ?l) = dom_slots s" by simp
    show ?thesis
      unfolding 4 using 1 2 3 by (simp add: fillSlots_slots 5)
  qed
  show "let r = calculateStaticPayments h (parseFloat h v);
              s1 = calculatePayments h s;
              s2 = calcFire (length (calc_timers s)) s1
          in s1 = calcSetTimeout (ShowResultsAfterDelay r) 1500 (showLoading s)
           \<and> calc_timers s1 = calc_timers s @ [(1500, ShowResultsAfterDelay r)]
           \<and> (thisModal s \<noteq> None \<and> thisResultsContainer s \<noteq> None
                \<and> thisBreakdownContainer s \<noteq> None \<longrightarrow>
                 dom_results s2 = Some ''block'' \<and> dom_breakdown s2 = Some ''block''
               \<and> calc_timers s2 = calc_timers s
               \<and> dom_slots s2 ''#weekly-payment'' =
                   map_option (\<lambda>_. weekly_amount r) (dom_slots s ''#weekly-payment'')
               \<and> dom_slots s2 ''#advance-payment'' =
                   map_option (\<lambda>_. upfront_costs_breakdown_advance_payment r)
                     (dom_slots s ''#advance-payment'')
               \<and> dom_slots s2 ''#security-bond'' =
                   map_option (\<lambda>_. upfront_costs_breakdown_bond r) (dom_slots s ''#security-bond'')
               \<and> dom_slots s2 ''#total-upfront'' =
                   map_option (\<lambda>_. upfront_costs_total r) (dom_slots s ''#total-upfront'')
               \<and> dom_slots s2 ''#total-rent'' =
                   map_option (\<lambda>_. totals_rent_after_12_months r) (dom_slots s ''#total-rent'')
               \<and> dom_slots s2 ''#out-of-pocket'' =
                   map_option (\<lambda>_. totals_out_of_pocket r) (dom_slots s ''#out-of-pocket''))"
    unfolding Let_def r_def [symmetric] s1_def [symmetric] s2_def [symmetric]
    using e t1 rest by blast
qed

theorem validation_threshold_witness:
  "thisAmountInput (opened_page\<lparr>dom_amount := Some ''499''\<rparr>) = Some ''499''
   \<and> parseFloat plain_host ''499'' = Num 499
   \<and> map_option error_text
        (dom_error (calculatePayments plain_host (opened_page\<lparr>dom_amount := Some ''499''\<rparr>)))
       = Some ''Please enter an amount of $500 or more.''
   \<and> calc_timers (calculatePayments plain_host (opened_page\<lparr>dom_amount := Some ''499''\<rparr>))
       = [(100, FocusAmount)]
   \<and> thisAmountInput opened_page = Some ''1000''
   \<and> parseFloat plain_host ''1000'' = Num 1000
   \<and> dom_slots (calcFire 1 (calculatePayments plain_host opened_page)) ''#weekly-payment''
       = Some ''$19.00''
   \<and> dom_results (calcFire 1 (calculatePayments plain_host opened_page)) = Some ''block''"
proof -
  let ?s = "opened_page\<lparr>dom_amount := Some ''499''\<rparr>"
  have a: "thisAmountInput ?s = Some ''499''" by code_simp
  have a1: "parseFloat plain_host ''499'' = Num 499" by code_simp
  have a2: "thisResultsContainer ?s \<noteq> None" "thisErrorContainer ?s \<noteq> None"
    "calc_timers ?s = [(100, FocusAmount)]"
    by code_simp+
  have b: "thisAmountInput opened_page = Some ''1000''" by code_simp
  have b1: "parseFloat plain_host ''1000'' = Num 1000" by code_simp
  have b2: "thisModal opened_page \<noteq> None" "thisResultsContainer opened_page \<noteq> None"
    "thisBreakdownContainer opened_page \<noteq> None" "length (calc_timers opened_page) = 1"
    "dom_slots opened_page ''#weekly-payment'' = Some []"
    by code_simp+
  have b3: "weekly_amount (calculateStaticPayments plain_host (Num 1000)) = ''$19.00''"
    by (simp add: plain_results_1000)
  have r: "rejected (parseFloat plain_host ''499'')" by (simp add: a1 rejected_499)
  have g: "js_ge (parseFloat plain_host ''1000'') (Num 500)" by (simp add: b1)
  note t = validation_threshold [OF a, of plain_host]
  have e1: "map_option error_text (dom_error (calculatePayments plain_host ?s))
              = Some ''Please enter an amount of $500 or more.''"
    using t r a2(1,2) by blast
  have e2: "calc_timers (calculatePayments plain_host ?s) = calc_timers ?s"
    using t r by blast
  note u = validation_threshold [OF b, of plain_host, unfolded Let_def b2(4)]
  have e3: "dom_slots (calcFire 1 (calculatePayments plain_host opened_page)) ''#weekly-payment''
              = map_option (\<lambda>_. weekly_amount (calculateStaticPayments plain_host
                    (parseFloat plain_host ''1000''))) (dom_slots opened_page ''#weekly-payment'')"
    using u g b2(1,2,3) by blast
  have e4: "dom_results (calcFire 1 (calculatePayments plain_host opened_page)) = Some ''block''"
    using u g b2(1,2,3) by blast
  show ?thesis
    using a a1 b b1 e1 e2 a2(3) e3 e4 b2(5) b3 by simp
qed

text \<open>
  Claim C10. \<open>openModal\<close> gives the amount field a new value exactly when the page
  has the modal and the field and the price attribute, divided by 100 and rounded by
  \<open>Math.round\<close>, is at least 500; the new value is that rounded amount. In every
  other case (a lower price, a missing or non-numeric attribute) the value the field
  had is left as it was.
\<close>

theorem prefill_threshold:
  "dom_amount (openModal h productPrice s) =
     (if dom_modal s \<noteq> None \<and> dom_amount s \<noteq> None
         \<and> js_ge (Math_round (js_div (toNumber h productPrice) (Num 100))) (Num 500)
      then Some (numberToString h (Math_round (js_div (toNumber h productPrice) (Num 100))))
      else dom_amount s)"
proof (cases "dom_modal s")
  case None
  then show ?thesis by (simp add: openModal_def)
next
  case (Some m)
  then show ?thesis
    by (simp add: openModal_def Let_def calcSetTimeout_def thisAmountInput_def productAmountOf_def)
qed

theorem prefill_threshold_witness:
  "dom_amount calc_page = Some []
   \<and> dom_amount (openModal plain_host (Some ''49950'') calc_page) = Some ''500''
   \<and> dom_amount (openModal plain_host (Some ''49949'') calc_page) = Some []
   \<and> dom_amount (openModal plain_host (Some ''49949'') opened_page) = Some ''1000''
   \<and> dom_amount (openModal plain_host None opened_page) = Some ''1000''
   \<and> dom_amount (openModal plain_host (Some ''n/a'') opened_page) = Some ''1000''"
proof -
  have a: "dom_modal calc_page \<noteq> None" "dom_amount calc_page = Some []"
    "dom_modal opened_page \<noteq> None" "dom_amount opened_page = Some ''1000''"
    by code_simp+
  have b: "Math_round (js_div (toNumber plain_host (Some ''49950'')) (Num 100)) = Num 500"
    "Math_round (js_div (toNumber plain_host (Some ''49949'')) (Num 100)) = Num 499"
    "Math_round (js_div (toNumber plain_host None) (Num 100)) = Num 0"
    "Math_round (js_div (toNumber plain_host (Some ''n/a'')) (Num 100)) = NaN"
    "numberToString plain_host (Num 500) = ''500''"
    by code_simp+
  show ?thesis
    using prefill_threshold [of plain_host "Some ''49950''" calc_page]
      prefill_threshold [of plain_host "Some ''49949''" calc_page]
      prefill_threshold [of plain_host "Some ''49949''" opened_page]
      prefill_threshold [of plain_host None opened_page]
      prefill_threshold [of plain_host "Some ''n/a''" opened_page]
    by (simp add: a b)
qed

end
